theory Spec2Isabelle
  imports Complex_Main "HOL-Library.AList"
begin

section \<open>JavaScript values used by the report scripts\<close>

text \<open>
  Strings are lists of code units; every character the scripts test for is ASCII, so a
  \<^typ>\<open>char\<close> stands for one code unit. A property that may be \<open>undefined\<close> or
  \<open>null\<close> is an \<^typ>\<open>'a option\<close>. Numbers that the run report carries (response time,
  status code, the SLA threshold) are integers.
\<close>

datatype js_error = TypeError

text \<open>\<open>x.f\<close> on a value that may be null raises; \<open>x?.f\<close> yields undefined.\<close>

definition plain :: "'a option \<Rightarrow> js_error + 'a" where
  "plain x = (case x of None \<Rightarrow> Inl TypeError | Some v \<Rightarrow> Inr v)"

definition chain :: "'a option \<Rightarrow> ('a \<Rightarrow> 'b option) \<Rightarrow> 'b option" where
  "chain x f = (case x of None \<Rightarrow> None | Some v \<Rightarrow> f v)"

text \<open>\<open>a || b\<close> on strings that may be undefined: the empty string is falsy.\<close>

definition jsOr :: "string option \<Rightarrow> string option \<Rightarrow> string option" where
  "jsOr a b = (case a of None \<Rightarrow> b | Some s \<Rightarrow> if s = [] then b else Some s)"

definition orElse :: "string option \<Rightarrow> string \<Rightarrow> string" where
  "orElse a d = (case a of None \<Rightarrow> d | Some s \<Rightarrow> if s = [] then d else s)"

definition codeOf :: "char \<Rightarrow> nat" where
  "codeOf c = of_char c"

definition isDigit :: "char \<Rightarrow> bool" where
  "isDigit c = (48 \<le> codeOf c \<and> codeOf c \<le> 57)"

definition isUpper :: "char \<Rightarrow> bool" where
  "isUpper c = (65 \<le> codeOf c \<and> codeOf c \<le> 90)"

definition isLower :: "char \<Rightarrow> bool" where
  "isLower c = (97 \<le> codeOf c \<and> codeOf c \<le> 122)"

text \<open>The regular-expression class \<open>\w\<close>: letters, digits and the underscore.\<close>

definition isWordChar :: "char \<Rightarrow> bool" where
  "isWordChar c = (isUpper c \<or> isLower c \<or> isDigit c \<or> codeOf c = 95)"

text \<open>The class \<open>\s\<close> (and what \<open>trim\<close> strips), on code units below 256.\<close>

definition isSpace :: "char \<Rightarrow> bool" where
  "isSpace c = ((9 \<le> codeOf c \<and> codeOf c \<le> 13) \<or> codeOf c = 32 \<or> codeOf c = 160)"

text \<open>
  Lower case of one code unit: an upper-case ASCII letter has bit 5 clear, and adding 32
  to its code is setting that bit (lemma \<open>lowerChar_code\<close> below).
\<close>

definition lowerChar :: "char \<Rightarrow> char" where
  "lowerChar c =
     (if isUpper c
      then (case c of Char b0 b1 b2 b3 b4 b5 b6 b7 \<Rightarrow> Char b0 b1 b2 b3 b4 True b6 b7)
      else c)"

definition toLowerCase :: "string \<Rightarrow> string" where
  "toLowerCase s = map lowerChar s"

text \<open>\<open>s.includes(pat)\<close>, that is \<open>s.indexOf(pat) !== -1\<close>.\<close>

fun jsIncludes :: "string \<Rightarrow> string \<Rightarrow> bool" where
  "jsIncludes pat [] = (pat = [])"
| "jsIncludes pat (c # cs) = (take (length pat) (c # cs) = pat \<or> jsIncludes pat cs)"

definition trim :: "string \<Rightarrow> string" where
  "trim s = rev (dropWhile isSpace (rev (dropWhile isSpace s)))"

text \<open>
  \<open>Math.round(100 * a / b)\<close> for counts \<open>a\<close> and \<open>b > 0\<close>: the quotient rounded to the
  nearest integer, a half rounded up. On counts the double-precision quotient rounds as
  the exact one does, so the integer formula is what the script computes.
\<close>

definition roundDiv :: "nat \<Rightarrow> nat \<Rightarrow> nat" where
  "roundDiv n d = (2 * n + d) div (2 * d)"

section \<open>The raw run report (make-suite-report.js)\<close>

record err_raw =
  e_test :: "string option"
  e_name :: "string option"
  e_message :: "string option"
  e_stack :: "string option"

record assertion_raw =
  a_assertion :: "string option"
  a_error :: "err_raw option"

record response_raw =
  r_code :: "int option"
  r_responseTime :: "int option"

record item_raw =
  i_name :: "string option"

record cursor_raw =
  c_iteration :: "nat option"

record exec_raw =
  x_item :: "item_raw option"
  x_assertions :: "assertion_raw list option"
  x_response :: "response_raw option"
  x_cursor :: "cursor_raw option"

section \<open>Building the test cases\<close>

datatype outcome = NotRun | Skipped | Fail | Pass

record check =
  name :: string
  ok :: bool
  message :: string

record testcase =
  group :: string
  api :: string
  iteration :: nat
  result :: outcome
  checksPassed :: nat
  checksFailed :: nat
  checksTotal :: nat
  statusCode :: "int option"
  respMs :: "int option"
  checks :: "check list"

text \<open>
  \<open>/\bskip\b/i.test(s)\<close>: the letters s, k, i, p in either case, with no word character
  directly before or after them. The first argument says whether the character before
  the current position is a word character.
\<close>

fun skipFrom :: "bool \<Rightarrow> string \<Rightarrow> bool" where
  "skipFrom pw [] = False"
| "skipFrom pw (c # cs) =
     ((\<not> pw \<and> toLowerCase (take 4 (c # cs)) = ''skip''
        \<and> (case drop 3 cs of [] \<Rightarrow> True | d # _ \<Rightarrow> \<not> isWordChar d))
      \<or> skipFrom (isWordChar c) cs)"

definition skipTest :: "string \<Rightarrow> bool" where
  "skipTest s = skipFrom False s"

text \<open>One entry of \<open>checks\<close>, from one raw assertion.\<close>

definition checkName :: "assertion_raw \<Rightarrow> string" where
  "checkName a =
     orElse (jsOr (a_assertion a)
              (jsOr (chain (a_error a) e_test) (chain (a_error a) e_name))) ''Assertion''"

definition checkMessage :: "assertion_raw \<Rightarrow> string" where
  "checkMessage a =
     (case a_error a of
        Some e \<Rightarrow> trim (orElse (jsOr (e_message e) (e_stack e)) [])
      | None \<Rightarrow> ''OK'')"

definition mkCheck :: "assertion_raw \<Rightarrow> check" where
  "mkCheck a = \<lparr>name = checkName a, ok = (a_error a = None), message = checkMessage a\<rparr>"

text \<open>\<open>s.split('/')[0]\<close>: the text before the first slash.\<close>

definition firstSegment :: "string \<Rightarrow> string" where
  "firstSegment s = takeWhile (\<lambda>c. c \<noteq> CHR ''/'') s"

text \<open>
  \<open>Number.isFinite(ex?.response?.responseTime) ? ex.response.responseTime : null\<close>:
  the test reads through optional chaining, the value through plain property access.
\<close>

definition respMsOf :: "exec_raw option \<Rightarrow> js_error + int option" where
  "respMsOf ex =
     (if chain (chain ex x_response) r_responseTime \<noteq> None
      then (case plain ex of
              Inl e \<Rightarrow> Inl e
            | Inr x \<Rightarrow> (case plain (x_response x) of
                          Inl e \<Rightarrow> Inl e
                        | Inr r \<Rightarrow> Inr (r_responseTime r)))
      else Inr None)"

text \<open>
  The callback of \<open>execs.map\<close>. The request and response snapshots (\<open>reqB64\<close>,
  \<open>resB64\<close>) and the identifiers derived from the iteration are display data and are
  left to the rendering section.
\<close>

definition assertionsOf :: "exec_raw option \<Rightarrow> assertion_raw list" where
  "assertionsOf ex = (case chain ex x_assertions of None \<Rightarrow> [] | Some as \<Rightarrow> as)"

definition testCase :: "exec_raw option \<Rightarrow> js_error + testcase" where
  "testCase ex =
     (let assertions = assertionsOf ex;
          total = length assertions;
          failed = length (filter (\<lambda>a. a_error a \<noteq> None) assertions);
          passed = total - failed;
          code = chain (chain ex x_response) r_code;
          cs = map mkCheck assertions;
          isSkip = list_ex (\<lambda>c. skipTest (name c) \<or> skipTest (message c)) cs;
          res = (if ex = None then NotRun
                 else if isSkip then Skipped
                 else if failed > 0 then Fail
                 else Pass);
          nm = orElse (chain (chain ex x_item) i_name) ''Request'';
          g = (if firstSegment nm = [] then ''Ungrouped'' else firstSegment nm);
          it = (case chain (chain ex x_cursor) c_iteration of None \<Rightarrow> 0 | Some i \<Rightarrow> i) + 1
      in case respMsOf ex of
           Inl e \<Rightarrow> Inl e
         | Inr ms \<Rightarrow>
             Inr \<lparr>group = g, api = nm, iteration = it, result = res,
                  checksPassed = passed, checksFailed = failed, checksTotal = total,
                  statusCode = code, respMs = ms, checks = cs\<rparr>)"

text \<open>\<open>execs.map(...)\<close>: the first callback that raises ends the run.\<close>

fun testCases :: "exec_raw option list \<Rightarrow> js_error + testcase list" where
  "testCases [] = Inr []"
| "testCases (ex # exs) =
     (case testCase ex of
        Inl e \<Rightarrow> Inl e
      | Inr tc \<Rightarrow> (case testCases exs of Inl e \<Rightarrow> Inl e | Inr tcs \<Rightarrow> Inr (tc # tcs)))"

section \<open>Suite-level aggregation\<close>

record suiteStats =
  totalCases :: nat
  passedCases :: nat
  failedCases :: nat
  passPct :: nat
  withinSLA :: nat
  withinPct :: nat

definition considered :: "testcase list \<Rightarrow> testcase list" where
  "considered tcs = filter (\<lambda>tc. result tc = Pass \<or> result tc = Fail) tcs"

definition withinSla :: "int \<Rightarrow> testcase \<Rightarrow> bool" where
  "withinSla sla t = (case respMs t of None \<Rightarrow> False | Some ms \<Rightarrow> ms \<le> sla)"

definition aggregate :: "int \<Rightarrow> testcase list \<Rightarrow> suiteStats" where
  "aggregate sla tcs =
     (let cons = considered tcs;
          total = length cons;
          passed = length (filter (\<lambda>t. result t = Pass) cons);
          failed = length (filter (\<lambda>t. result t = Fail) cons);
          nWithin = length (filter (withinSla sla) cons)
      in \<lparr>totalCases = total, passedCases = passed, failedCases = failed,
          passPct = (if total \<noteq> 0 then roundDiv (100 * passed) total else 0),
          withinSLA = nWithin,
          withinPct = (if total \<noteq> 0 then roundDiv (100 * nWithin) total else 0)\<rparr>)"

text \<open>Normalizer and aggregation together, as the script runs them.\<close>

definition suiteAggregates :: "int \<Rightarrow> exec_raw option list \<Rightarrow> js_error + suiteStats" where
  "suiteAggregates sla execs =
     (case testCases execs of Inl e \<Rightarrow> Inl e | Inr tcs \<Rightarrow> Inr (aggregate sla tcs))"

section \<open>Suite identity from the output path\<close>

text \<open>\<open>s.split(/[\\/]+/)\<close>: the pieces between runs of slashes and backslashes.\<close>

definition isSep :: "char \<Rightarrow> bool" where
  "isSep c = (c = CHR ''/'' \<or> c = CHR 0x5C)"

fun splitSeps :: "string \<Rightarrow> string list" where
  "splitSeps [] = [[]]"
| "splitSeps (c # cs) =
     (if isSep c
      then (if (case cs of [] \<Rightarrow> False | d # _ \<Rightarrow> isSep d) then splitSeps cs
            else [] # splitSeps cs)
      else (case splitSeps cs of [] \<Rightarrow> [[c]] | seg # segs \<Rightarrow> (c # seg) # segs))"

fun findIndex :: "('a \<Rightarrow> bool) \<Rightarrow> 'a list \<Rightarrow> nat option" where
  "findIndex P [] = None"
| "findIndex P (x # xs) = (if P x then Some 0 else map_option Suc (findIndex P xs))"

text \<open>\<open>xs[i]\<close>: undefined beyond the end.\<close>

definition elemAt :: "'a list \<Rightarrow> nat \<Rightarrow> 'a option" where
  "elemAt xs i = (if i < length xs then Some (xs ! i) else None)"

text \<open>\<open>/newmancollectionlist/i.test(x)\<close>.\<close>

definition anchorTest :: "string \<Rightarrow> bool" where
  "anchorTest x = jsIncludes ''newmancollectionlist'' (toLowerCase x)"

text \<open>
  \<open>path.resolve\<close> belongs to the platform and depends on the working directory; it is
  the parameter \<open>resolve\<close>.
\<close>

definition deriveParentFromPath :: "(string \<Rightarrow> string) \<Rightarrow> string \<Rightarrow> string" where
  "deriveParentFromPath resolve p =
     (let segs = splitSeps (resolve p)
      in case findIndex anchorTest segs of
           None \<Rightarrow> ''Misc''
         | Some i \<Rightarrow> orElse (elemAt segs (i + 1)) ''Misc'')"

text \<open>\<open>name.split("-").pop()\<close>: the text after the last hyphen.\<close>

definition lastDashSegment :: "string \<Rightarrow> string" where
  "lastDashSegment s = rev (takeWhile (\<lambda>c. c \<noteq> CHR ''-'') (rev s))"

text \<open>The second argument is \<open>collection?.info?.name\<close>.\<close>

definition deriveModuleFromPath :: "(string \<Rightarrow> string) \<Rightarrow> string option \<Rightarrow> string \<Rightarrow> string" where
  "deriveModuleFromPath resolve collName p =
     (let segs = splitSeps (resolve p);
          fallback = orElse (map_option (trim \<circ> lastDashSegment) collName) ''Module''
      in case findIndex anchorTest segs of
           None \<Rightarrow> fallback
         | Some i \<Rightarrow> orElse (elemAt segs (i + 2)) fallback)"

section \<open>Folder summaries\<close>

text \<open>
  \<open>pretty\<close>: drop a leading \<open>SC_<digits>_\<close>, turn underscores into spaces, trim,
  and fall back to \<open>Untitled\<close>.
\<close>

definition stripScPrefix :: "string \<Rightarrow> string" where
  "stripScPrefix s =
     (if take 3 s = ''SC_''
      then (let ds = takeWhile isDigit (drop 3 s); t = dropWhile isDigit (drop 3 s)
            in if ds \<noteq> [] \<and> take 1 t = ''_'' then drop 1 t else s)
      else s)"

definition pretty :: "string \<Rightarrow> string" where
  "pretty s =
     (let t = trim (map (\<lambda>c. if c = CHR ''_'' then CHR '' '' else c) (stripScPrefix s))
      in if t = [] then ''Untitled'' else t)"

text \<open>\<open>avg\<close>: the rounded mean of the response times, 0 for none.\<close>

definition avg :: "int list \<Rightarrow> int" where
  "avg a = (if a = [] then 0 else (2 * sum_list a + int (length a)) div (2 * int (length a)))"

text \<open>
  One entry of the \<open>byFolder\<close> map. The map keeps its keys in insertion order, and
  setting an existing key keeps its place: an association list with
  \<^const>\<open>AList.update\<close>.
\<close>

record folderAcc =
  f_group :: string
  f_total :: nat
  f_pass :: nat
  f_fail :: nat
  f_resp :: "int list"
  f_apis :: "testcase list"

definition groupKey :: "testcase \<Rightarrow> string" where
  "groupKey tc = (if group tc = [] then ''Ungrouped'' else group tc)"

definition folderStep :: "(string \<times> folderAcc) list \<Rightarrow> testcase \<Rightarrow> (string \<times> folderAcc) list" where
  "folderStep m tc =
     (let g = groupKey tc;
          a = (case map_of m g of
                 None \<Rightarrow> \<lparr>f_group = g, f_total = 0, f_pass = 0, f_fail = 0, f_resp = [], f_apis = []\<rparr>
               | Some a \<Rightarrow> a);
          a1 = a\<lparr>f_total := f_total a + 1\<rparr>;
          a2 = (if result tc = Pass then a1\<lparr>f_pass := f_pass a1 + 1\<rparr>
                else a1\<lparr>f_fail := f_fail a1 + 1\<rparr>);
          a3 = (case respMs tc of None \<Rightarrow> a2 | Some ms \<Rightarrow> a2\<lparr>f_resp := f_resp a2 @ [ms]\<rparr>);
          a4 = a3\<lparr>f_apis := f_apis a3 @ [tc]\<rparr>
      in AList.update g a4 m)"

definition byFolder :: "testcase list \<Rightarrow> (string \<times> folderAcc) list" where
  "byFolder tcs = foldl folderStep [] (considered tcs)"

record folderRow =
  fr_group :: string
  fr_pretty :: string
  fr_total :: nat
  fr_pass :: nat
  fr_fail :: nat
  fr_passPct :: nat
  fr_avgMs :: int
  fr_apis :: "testcase list"

definition mkFolderRow :: "folderAcc \<Rightarrow> folderRow" where
  "mkFolderRow r =
     \<lparr>fr_group = f_group r, fr_pretty = pretty (f_group r),
      fr_total = f_total r, fr_pass = f_pass r, fr_fail = f_fail r,
      fr_passPct = (if f_total r \<noteq> 0 then roundDiv (100 * f_pass r) (f_total r) else 0),
      fr_avgMs = avg (f_resp r), fr_apis = f_apis r\<rparr>"

text \<open>
  \<open>Array.prototype.sort\<close> with a comparison function is a stable sort. The comparison
  is \<open>localeCompare\<close>, which depends on the locale of the process; it is a parameter
  \<open>cmp\<close>, negative when its first argument sorts first.
\<close>

fun insertBy :: "('a \<Rightarrow> 'a \<Rightarrow> int) \<Rightarrow> 'a \<Rightarrow> 'a list \<Rightarrow> 'a list" where
  "insertBy cmp x [] = [x]"
| "insertBy cmp x (y # ys) = (if cmp x y \<le> 0 then x # y # ys else y # insertBy cmp x ys)"

definition sortBy :: "('a \<Rightarrow> 'a \<Rightarrow> int) \<Rightarrow> 'a list \<Rightarrow> 'a list" where
  "sortBy cmp xs = foldr (insertBy cmp) xs []"

definition folderRows :: "(string \<Rightarrow> string \<Rightarrow> int) \<Rightarrow> testcase list \<Rightarrow> folderRow list" where
  "folderRows localeCompare tcs =
     sortBy (\<lambda>a b. localeCompare (fr_pretty a) (fr_pretty b)) (map (mkFolderRow \<circ> snd) (byFolder tcs))"

text \<open>
  What \<^const>\<open>byFolder\<close> holds for a group once the cases \<open>xs\<close> have been folded in
  (lemma \<open>foldl_folderStep\<close>): the counts and lists of the cases of that group.
\<close>

definition accOf :: "testcase list \<Rightarrow> string \<Rightarrow> folderAcc" where
  "accOf xs g =
     \<lparr>f_group = g,
      f_total = length (filter (\<lambda>tc. groupKey tc = g) xs),
      f_pass = length (filter (\<lambda>tc. groupKey tc = g \<and> result tc = Pass) xs),
      f_fail = length (filter (\<lambda>tc. groupKey tc = g \<and> result tc \<noteq> Pass) xs),
      f_resp = List.map_filter respMs (filter (\<lambda>tc. groupKey tc = g) xs),
      f_apis = filter (\<lambda>tc. groupKey tc = g) xs\<rparr>"

section \<open>The combined report (combine-email-report.js): aggregation\<close>

text \<open>
  One row parsed from a suite document. \<open>pass\<close>, \<open>fail\<close> and \<open>total\<close> come from
  \<open>Number\<close> of a run of digits; \<open>passPct\<close> from digits with an optional fraction;
  \<open>avg\<close> from digits, commas and dots, and is \<open>NaN\<close> (\<open>None\<close>) when they do not
  form a number.
\<close>

record row =
  r_parent :: string
  r_module :: string
  r_api :: string
  r_pass :: nat
  r_fail :: nat
  r_total :: nat
  r_passPct :: rat
  r_avg :: "rat option"

record keySums =
  passSum :: nat
  failSum :: nat
  totalSum :: nat

text \<open>The key \<open>`${r.parent}|${r.module}|${r.api}`\<close>.\<close>

definition keyOf :: "row \<Rightarrow> string" where
  "keyOf r = r_parent r @ ''|'' @ r_module r @ ''|'' @ r_api r"

definition aggStep :: "(string \<times> keySums) list \<Rightarrow> row \<Rightarrow> (string \<times> keySums) list" where
  "aggStep keyMap r =
     (let key = keyOf r;
          cur = (case map_of keyMap key of
                   None \<Rightarrow> \<lparr>passSum = 0, failSum = 0, totalSum = 0\<rparr>
                 | Some c \<Rightarrow> c)
      in AList.update key
           \<lparr>passSum = passSum cur + r_pass r, failSum = failSum cur + r_fail r,
            totalSum = totalSum cur + r_total r\<rparr> keyMap)"

definition keyMapOf :: "row list \<Rightarrow> (string \<times> keySums) list" where
  "keyMapOf rows = foldl aggStep [] rows"

text \<open>
  \<open>aggregateApiStatsFromRows\<close>. The \<open>rate\<close> field, a percentage string computed in
  floating point for display, is left out.
\<close>

record apiStats =
  unique :: nat
  passed :: nat
  failed :: nat

definition aggregateApiStatsFromRows :: "row list \<Rightarrow> apiStats" where
  "aggregateApiStatsFromRows rows =
     (let keyMap = keyMapOf rows;
          u = length keyMap;
          p = length (filter (\<lambda>(k, v). totalSum v > 0 \<and> failSum v = 0) keyMap)
      in \<lparr>unique = u, passed = p, failed = u - p\<rparr>)"

text \<open>
  What \<open>main\<close> keeps of one suite document: its rows and the API names it uses for
  unique counting (\<open>apiList\<close>). A JavaScript \<open>Set\<close> of strings is a list without
  repetition, in insertion order.
\<close>

definition setAdd :: "'a list \<Rightarrow> 'a \<Rightarrow> 'a list" where
  "setAdd xs x = (if x \<in> set xs then xs else xs @ [x])"

record parsedDoc =
  d_parent :: string
  d_rows :: "row list"
  d_apiList :: "string list"

text \<open>The loop body that fills \<open>grandUniqueSet\<close> with \<open>`${parent}|${name}`\<close>.\<close>

definition uniqueStep :: "string list \<Rightarrow> parsedDoc \<Rightarrow> string list" where
  "uniqueStep grandUniqueSet d =
     foldl (\<lambda>acc a. let nm = trim a in if nm = [] then acc else setAdd acc (d_parent d @ ''|'' @ nm))
       grandUniqueSet (d_apiList d)"

definition grandUniqueSetOf :: "parsedDoc list \<Rightarrow> string list" where
  "grandUniqueSetOf docs = foldl uniqueStep [] docs"

definition allRowsOf :: "parsedDoc list \<Rightarrow> row list" where
  "allRowsOf docs = concat (map d_rows docs)"

text \<open>\<open>grandApiDisp\<close>: the unique-API tiles of the combined report.\<close>

definition grandApiDisp :: "parsedDoc list \<Rightarrow> apiStats" where
  "grandApiDisp docs =
     (let grandApiRows = aggregateApiStatsFromRows (allRowsOf docs);
          n = length (grandUniqueSetOf docs);
          grandUnique = (if n \<noteq> 0 then n else unique grandApiRows);
          grandPassed = passed grandApiRows
      in \<lparr>unique = grandUnique, passed = grandPassed, failed = grandUnique - grandPassed\<rparr>)"

text \<open>
  The skip marker as the specification words it: the text contains the substring
  \<open>skip\<close>, letter case ignored. It is compared below with \<^const>\<open>skipTest\<close>, which is
  what the script evaluates.
\<close>

definition specSkipMarker :: "string \<Rightarrow> bool" where
  "specSkipMarker s = jsIncludes ''skip'' (toLowerCase s)"

section \<open>Text helpers shared by both scripts\<close>

definition digitChar :: "nat \<Rightarrow> char" where
  "digitChar d = ''0123456789'' ! d"

text \<open>\<open>String(n)\<close> for a count.\<close>

fun showNat :: "nat \<Rightarrow> string" where
  "showNat n = (if n < 10 then [digitChar n] else showNat (n div 10) @ [digitChar (n mod 10)])"

declare showNat.simps [simp del]

text \<open>
  \<open>fmt\<close> is \<open>n.toLocaleString()\<close>, which groups digits as the locale of the process
  says. The model takes the locale \<open>en-US\<close>, the one the combiner is written for (it
  strips commas from the latency cell): groups of three digits separated by commas.
\<close>

fun groupRev :: "string \<Rightarrow> string" where
  "groupRev (a # b # c # d # ds) = a # b # c # CHR '','' # groupRev (d # ds)"
| "groupRev ds = ds"

definition fmtNat :: "nat \<Rightarrow> string" where
  "fmtNat n = rev (groupRev (rev (showNat n)))"

definition fmtInt :: "int \<Rightarrow> string" where
  "fmtInt i = (if i < 0 then ''-'' @ fmtNat (nat (- i)) else fmtNat (nat i))"

text \<open>\<open>esc\<close>: the five HTML entities.\<close>

definition escChar :: "char \<Rightarrow> string" where
  "escChar c =
     (if c = CHR ''&'' then ''&amp;''
      else if c = CHR ''<'' then ''&lt;''
      else if c = CHR ''>'' then ''&gt;''
      else if c = CHR 0x22 then ''&quot;''
      else if c = CHR 0x27 then ''&#39;''
      else [c])"

definition esc :: "string \<Rightarrow> string" where
  "esc s = concat (map escChar s)"

text \<open>
  \<open>idfy\<close>: lower case, every run of characters other than \<open>a-z0-9\<close> becomes one
  hyphen, and a hyphen at the start and one at the end are dropped. The flag of
  \<open>dashRuns\<close> says that the hyphen of the current run is already written.
\<close>

definition isLowerAlnum :: "char \<Rightarrow> bool" where
  "isLowerAlnum c = (isLower c \<or> isDigit c)"

fun dashRuns :: "bool \<Rightarrow> string \<Rightarrow> string" where
  "dashRuns inRun [] = []"
| "dashRuns inRun (c # cs) =
     (if isLowerAlnum c then c # dashRuns False cs
      else if inRun then dashRuns True cs
      else CHR ''-'' # dashRuns True cs)"

definition stripDashes :: "string \<Rightarrow> string" where
  "stripDashes s =
     (let s1 = (if take 1 s = ''-'' then drop 1 s else s)
      in if s1 \<noteq> [] \<and> last s1 = CHR ''-'' then butlast s1 else s1)"

definition idfy :: "string \<Rightarrow> string" where
  "idfy s = stripDashes (dashRuns False (toLowerCase s))"

text \<open>\<open>s.padStart(3, '0')\<close>.\<close>

definition padStart3 :: "string \<Rightarrow> string" where
  "padStart3 s = replicate (3 - length s) (CHR ''0'') @ s"

text \<open>\<open>xs.join(sep)\<close>.\<close>

fun joinWith :: "string \<Rightarrow> string list \<Rightarrow> string" where
  "joinWith sep [] = []"
| "joinWith sep [x] = x"
| "joinWith sep (x # y # ys) = x @ sep @ joinWith sep (y # ys)"

section \<open>Matching text, as the regular expressions of the combiner do\<close>

text \<open>
  All expressions of the combiner carry the flag \<open>i\<close>: a literal matches in either
  letter case. The pattern argument is given in lower case.
\<close>

definition startsWithCI :: "string \<Rightarrow> string \<Rightarrow> bool" where
  "startsWithCI pat s = (toLowerCase (take (length pat) s) = pat)"

text \<open>A literal at the current position; the result is the text after it.\<close>

definition lit :: "string \<Rightarrow> string \<Rightarrow> string option" where
  "lit pat s = (if startsWithCI pat s then Some (drop (length pat) s) else None)"

text \<open>
  The first occurrence of a literal: the text before it and the text after it. This is
  the lazy \<open>[\s\S]*?\<close> followed by the literal.
\<close>

fun findAfterCI :: "string \<Rightarrow> string \<Rightarrow> (string \<times> string) option" where
  "findAfterCI pat [] = (if pat = [] then Some ([], []) else None)"
| "findAfterCI pat (c # cs) =
     (if startsWithCI pat (c # cs) then Some ([], drop (length pat) (c # cs))
      else map_option (\<lambda>(b, a). (c # b, a)) (findAfterCI pat cs))"

text \<open>
  An opening tag \<open><name[^>]*>\<close>: the name, then everything up to the first \<open>>\<close>. The
  result is the text after that \<open>>\<close>.
\<close>

definition afterTagOpen :: "string \<Rightarrow> string \<Rightarrow> string option" where
  "afterTagOpen nm s =
     (if startsWithCI nm s
      then (case dropWhile (\<lambda>c. c \<noteq> CHR ''>'') (drop (length nm) s) of
              [] \<Rightarrow> None
            | _ # r \<Rightarrow> Some r)
      else None)"

definition skipWs :: "string \<Rightarrow> string" where
  "skipWs s = dropWhile isSpace s"

text \<open>
  An optional group \<open>(?:...)?\<close> in a place where giving the group up cannot make the
  rest of the expression match: it is taken when it matches.
\<close>

definition optional :: "(string \<Rightarrow> string option) \<Rightarrow> string \<Rightarrow> string" where
  "optional p s = (case p s of None \<Rightarrow> s | Some r \<Rightarrow> r)"

text \<open>\<open>(\d+)\<close>: the captured digits and the text after them.\<close>

definition digits1 :: "string \<Rightarrow> (string \<times> string) option" where
  "digits1 s =
     (if takeWhile isDigit s = [] then None
      else Some (takeWhile isDigit s, dropWhile isDigit s))"

text \<open>\<open>Number\<close> of a run of digits.\<close>

definition digitVal :: "char \<Rightarrow> nat" where
  "digitVal c = codeOf c - 48"

definition natOfDigits :: "string \<Rightarrow> nat" where
  "natOfDigits ds = foldl (\<lambda>n c. 10 * n + digitVal c) 0 ds"

section \<open>The API registry: \<open>JSON.stringify\<close> and \<open>JSON.parse\<close> on arrays of strings\<close>

definition hexDigit :: "nat \<Rightarrow> char" where
  "hexDigit d = ''0123456789abcdef'' ! d"

definition jsonEscChar :: "char \<Rightarrow> string" where
  "jsonEscChar c =
     (if c = CHR 0x22 then [CHR 0x5C, CHR 0x22]
      else if c = CHR 0x5C then [CHR 0x5C, CHR 0x5C]
      else if codeOf c = 8 then [CHR 0x5C, CHR ''b'']
      else if codeOf c = 12 then [CHR 0x5C, CHR ''f'']
      else if codeOf c = 10 then [CHR 0x5C, CHR ''n'']
      else if codeOf c = 13 then [CHR 0x5C, CHR ''r'']
      else if codeOf c = 9 then [CHR 0x5C, CHR ''t'']
      else if codeOf c < 32
        then [CHR 0x5C, CHR ''u'', CHR ''0'', CHR ''0'', hexDigit (codeOf c div 16),
              hexDigit (codeOf c mod 16)]
      else [c])"

definition jsonQuote :: "string \<Rightarrow> string" where
  "jsonQuote s = [CHR 0x22] @ concat (map jsonEscChar s) @ [CHR 0x22]"

text \<open>\<open>JSON.stringify\<close> of an array of strings.\<close>

definition jsonStringArray :: "string list \<Rightarrow> string" where
  "jsonStringArray xs = ''['' @ joinWith '','' (map jsonQuote xs) @ '']''"

definition isJsonWs :: "char \<Rightarrow> bool" where
  "isJsonWs c = (codeOf c = 32 \<or> codeOf c = 9 \<or> codeOf c = 10 \<or> codeOf c = 13)"

definition hexVal :: "char \<Rightarrow> nat option" where
  "hexVal c =
     (if isDigit c then Some (codeOf c - 48)
      else if 97 \<le> codeOf c \<and> codeOf c \<le> 102 then Some (codeOf c - 87)
      else if 65 \<le> codeOf c \<and> codeOf c \<le> 70 then Some (codeOf c - 55)
      else None)"

text \<open>
  The four hexadecimal digits of \<open>\uXXXX\<close>. A code unit above 255 has no
  \<^typ>\<open>char\<close>; the builder never writes one in this form.
\<close>

definition hex4 :: "string \<Rightarrow> char option" where
  "hex4 hs =
     (case map hexVal hs of
        [Some a, Some b, Some c, Some d] \<Rightarrow>
          (if a = 0 \<and> b = 0 then Some (char_of (16 * c + d)) else None)
      | _ \<Rightarrow> None)"

definition unescape :: "char \<Rightarrow> char option" where
  "unescape e =
     (if e = CHR 0x22 then Some (CHR 0x22)
      else if e = CHR 0x5C then Some (CHR 0x5C)
      else if e = CHR ''/'' then Some (CHR ''/'')
      else if e = CHR ''b'' then Some (CHR 0x08)
      else if e = CHR ''f'' then Some (CHR 0x0C)
      else if e = CHR ''n'' then Some (CHR 0x0A)
      else if e = CHR ''r'' then Some (CHR 0x0D)
      else if e = CHR ''t'' then Some (CHR 0x09)
      else None)"

definition consFst :: "'a \<Rightarrow> ('a list \<times> 'b) option \<Rightarrow> ('a list \<times> 'b) option" where
  "consFst c r = map_option (\<lambda>(v, rest). (c # v, rest)) r"

text \<open>
  A JSON string after its opening quote: the decoded text and what follows the closing
  quote; \<open>None\<close> is a syntax error.
\<close>

fun jsonStringBody :: "string \<Rightarrow> (string \<times> string) option" where
  "jsonStringBody [] = None"
| "jsonStringBody (c # cs) =
     (if c = CHR 0x22 then Some ([], cs)
      else if c = CHR 0x5C then
        (case cs of
           [] \<Rightarrow> None
         | e # r \<Rightarrow>
             if e = CHR ''u'' then
               (case hex4 (take 4 r) of
                  None \<Rightarrow> None
                | Some d \<Rightarrow> consFst d (jsonStringBody (drop 4 r)))
             else (case unescape e of
                     None \<Rightarrow> None
                   | Some d \<Rightarrow> consFst d (jsonStringBody r)))
      else if codeOf c < 32 then None
      else consFst c (jsonStringBody cs))"

lemma jsonStringBody_shorter:
  "jsonStringBody s = Some (v, r) \<Longrightarrow> length r < length s"
proof (induction s arbitrary: v r rule: jsonStringBody.induct)
  case 1
  then show ?case by simp
next
  case (2 c cs)
  show ?case
  proof (cases "c = CHR 0x22")
    case True
    with "2.prems" show ?thesis by simp
  next
    case nq: False
    show ?thesis
    proof (cases "c = CHR 0x5C")
      case True
      with nq "2.prems" obtain e r0 where cs: "cs = e # r0"
        by (cases cs) auto
      show ?thesis
      proof (cases "e = CHR ''u''")
        case u: True
        with True nq cs "2.prems" obtain d v' where
          d: "hex4 (take 4 r0) = Some d" and b: "jsonStringBody (drop 4 r0) = Some (v', r)"
          by (auto simp: consFst_def split: option.splits)
        from "2.IH"(1) [OF nq True cs u d b] have "length r < length (drop 4 r0)" .
        with cs show ?thesis by simp
      next
        case nu: False
        with True nq cs "2.prems" obtain d v' where
          d: "unescape e = Some d" and b: "jsonStringBody r0 = Some (v', r)"
          by (auto simp: consFst_def split: option.splits)
        from "2.IH"(2) [OF nq True cs nu d b] have "length r < length r0" .
        with cs show ?thesis by simp
      qed
    next
      case nb: False
      with nq "2.prems" obtain v' where lo: "\<not> codeOf c < 32"
        and b: "jsonStringBody cs = Some (v', r)"
        by (auto simp: consFst_def split: option.splits if_splits)
      from "2.IH"(3) [OF nq nb lo b] show ?thesis by simp
    qed
  qed
qed

text \<open>
  The elements of a non-empty array, after the opening bracket: a string, then a comma
  and the remaining elements, or the closing bracket and nothing but white space.
\<close>

function jsonElems :: "string \<Rightarrow> string list option" where
  "jsonElems s =
     (case dropWhile isJsonWs s of
        [] \<Rightarrow> None
      | c # cs \<Rightarrow>
          if c = CHR 0x22 then
            (case jsonStringBody cs of
               None \<Rightarrow> None
             | Some (v, r) \<Rightarrow>
                 (case dropWhile isJsonWs r of
                    [] \<Rightarrow> None
                  | d # ds \<Rightarrow>
                      if d = CHR '','' then map_option ((#) v) (jsonElems ds)
                      else if d = CHR '']'' \<and> dropWhile isJsonWs ds = [] then Some [v]
                      else None))
          else None)"
  by pat_completeness auto
termination
proof (relation "measure length", goal_cases)
  case 1
  then show ?case by simp
next
  case (2 s c cs x v r d ds)
  have "length ds < length (dropWhile isJsonWs r)" using 2 by simp
  also have "\<dots> \<le> length r" by (rule length_dropWhile_le)
  also have "\<dots> < length cs" using 2 jsonStringBody_shorter by metis
  also have "\<dots> < length (dropWhile isJsonWs s)" using 2 by simp
  also have "\<dots> \<le> length s" by (rule length_dropWhile_le)
  finally show ?case by simp
qed

declare jsonElems.simps [simp del]

text \<open>
  \<open>JSON.parse\<close> on the texts the builder writes into the registry: an array of string
  literals. Any other text is a parse error here. (A JSON text of another shape, which
  the builder never writes, is outside this model.)
\<close>

definition jsonParseStrings :: "string \<Rightarrow> string list option" where
  "jsonParseStrings s =
     (case dropWhile isJsonWs s of
        [] \<Rightarrow> None
      | c # cs \<Rightarrow>
          if c = CHR ''['' then
            (case dropWhile isJsonWs cs of
               [] \<Rightarrow> None
             | d # ds \<Rightarrow>
                 if d = CHR '']'' then (if dropWhile isJsonWs ds = [] then Some [] else None)
                 else jsonElems cs)
          else None)"

section \<open>The combiner: reading a suite document\<close>

text \<open>
  \<open>/<script[^>]*id=["']suite-apis["'][^>]*>([\s\S]*?)<\/script>/i\<close> at the current
  position: the tag runs to the first \<open>>\<close> and holds the \<open>id\<close> attribute in one of
  the four quotings; the capture runs to the first closing tag.
\<close>

definition hasSuiteApisId :: "string \<Rightarrow> bool" where
  "hasSuiteApisId tag =
     (let t = toLowerCase tag
      in jsIncludes [CHR ''i'', CHR ''d'', CHR ''='', CHR 0x22, CHR ''s'', CHR ''u'', CHR ''i'',
                     CHR ''t'', CHR ''e'', CHR ''-'', CHR ''a'', CHR ''p'', CHR ''i'', CHR ''s'',
                     CHR 0x22] t
       \<or> jsIncludes [CHR ''i'', CHR ''d'', CHR ''='', CHR 0x22, CHR ''s'', CHR ''u'', CHR ''i'',
                     CHR ''t'', CHR ''e'', CHR ''-'', CHR ''a'', CHR ''p'', CHR ''i'', CHR ''s'',
                     CHR 0x27] t
       \<or> jsIncludes [CHR ''i'', CHR ''d'', CHR ''='', CHR 0x27, CHR ''s'', CHR ''u'', CHR ''i'',
                     CHR ''t'', CHR ''e'', CHR ''-'', CHR ''a'', CHR ''p'', CHR ''i'', CHR ''s'',
                     CHR 0x22] t
       \<or> jsIncludes [CHR ''i'', CHR ''d'', CHR ''='', CHR 0x27, CHR ''s'', CHR ''u'', CHR ''i'',
                     CHR ''t'', CHR ''e'', CHR ''-'', CHR ''a'', CHR ''p'', CHR ''i'', CHR ''s'',
                     CHR 0x27] t)"

definition suiteApisAt :: "string \<Rightarrow> string option" where
  "suiteApisAt s =
     (if startsWithCI ''<script'' s
      then (let tag = takeWhile (\<lambda>c. c \<noteq> CHR ''>'') (drop 7 s);
                after = dropWhile (\<lambda>c. c \<noteq> CHR ''>'') (drop 7 s)
            in if after \<noteq> [] \<and> hasSuiteApisId tag
               then map_option fst (findAfterCI ''</script>'' (tl after))
               else None)
      else None)"

text \<open>\<open>htmlText.match(re)\<close>: the leftmost position at which the expression matches.\<close>

fun suiteApisMatch :: "string \<Rightarrow> string option" where
  "suiteApisMatch [] = None"
| "suiteApisMatch (c # cs) =
     (case suiteApisAt (c # cs) of Some m \<Rightarrow> Some m | None \<Rightarrow> suiteApisMatch cs)"

definition extractSuiteApis :: "string \<Rightarrow> string list" where
  "extractSuiteApis htmlText =
     (case suiteApisMatch htmlText of
        None \<Rightarrow> []
      | Some m \<Rightarrow>
          (case jsonParseStrings m of
             None \<Rightarrow> []
           | Some arr \<Rightarrow> filter (\<lambda>s. s \<noteq> []) (map trim arr)))"

text \<open>
  \<open>extractParent\<close> and \<open>extractModule\<close>: the first
  \<open><meta name="suite-parent" content="([^"]+)"\<close>, or the default.
\<close>

definition metaAt :: "string \<Rightarrow> string \<Rightarrow> string option" where
  "metaAt pat s =
     (case lit pat s of
        None \<Rightarrow> None
      | Some r \<Rightarrow>
          (let v = takeWhile (\<lambda>c. c \<noteq> CHR 0x22) r
           in if v \<noteq> [] \<and> dropWhile (\<lambda>c. c \<noteq> CHR 0x22) r \<noteq> [] then Some v else None))"

fun metaMatch :: "string \<Rightarrow> string \<Rightarrow> string option" where
  "metaMatch pat [] = None"
| "metaMatch pat (c # cs) =
     (case metaAt pat (c # cs) of Some v \<Rightarrow> Some v | None \<Rightarrow> metaMatch pat cs)"

definition extractParent :: "string \<Rightarrow> string" where
  "extractParent htmlText =
     orElse (metaMatch (''<meta name='' @ [CHR 0x22] @ ''suite-parent'' @ [CHR 0x22]
                        @ '' content='' @ [CHR 0x22]) htmlText) ''Parent''"

definition extractModule :: "string \<Rightarrow> string" where
  "extractModule htmlText =
     orElse (metaMatch (''<meta name='' @ [CHR 0x22] @ ''suite-module'' @ [CHR 0x22]
                        @ '' content='' @ [CHR 0x22]) htmlText) ''Module''"

text \<open>
  The row expression of \<open>parseSuiteRows\<close>, cell by cell. Each function takes the text
  at the current position and yields its capture and the text after the cell.

  \<open>\s*<td[^>]*>(?:<span[^>]*>)?(\d+)(?:<\/span>)?<\/td>\<close>
\<close>

definition badgeCell :: "string \<Rightarrow> (string \<times> string) option" where
  "badgeCell s =
     (case afterTagOpen ''<td'' (skipWs s) of
        None \<Rightarrow> None
      | Some r1 \<Rightarrow>
          (case digits1 (optional (afterTagOpen ''<span'') r1) of
             None \<Rightarrow> None
           | Some (d, r2) \<Rightarrow> map_option (Pair d) (lit ''</td>'' (optional (lit ''</span>'') r2))))"

text \<open>\<open>\s*<td[^>]*>(\d+)<\/td>\<close>\<close>

definition plainCell :: "string \<Rightarrow> (string \<times> string) option" where
  "plainCell s =
     (case afterTagOpen ''<td'' (skipWs s) of
        None \<Rightarrow> None
      | Some r1 \<Rightarrow>
          (case digits1 r1 of
             None \<Rightarrow> None
           | Some (d, r2) \<Rightarrow> map_option (Pair d) (lit ''</td>'' r2)))"

text \<open>
  \<open>\s*<td[^>]*>(\d+(?:\.\d+)?)\s*%?\s*<\/td>\<close>: the capture is kept as its integer
  digits and its fraction digits.
\<close>

definition fraction :: "string \<Rightarrow> string \<times> string" where
  "fraction s =
     (case s of
        [] \<Rightarrow> ([], s)
      | c # cs \<Rightarrow>
          if c = CHR ''.'' \<and> takeWhile isDigit cs \<noteq> []
          then (takeWhile isDigit cs, dropWhile isDigit cs)
          else ([], s))"

definition pctCell :: "string \<Rightarrow> ((string \<times> string) \<times> string) option" where
  "pctCell s =
     (case afterTagOpen ''<td'' (skipWs s) of
        None \<Rightarrow> None
      | Some r1 \<Rightarrow>
          (case digits1 r1 of
             None \<Rightarrow> None
           | Some (d, r2) \<Rightarrow>
               (let (f, r3) = fraction r2
                in map_option (Pair (d, f))
                     (lit ''</td>'' (skipWs (optional (lit ''%'') (skipWs r3)))))))"

text \<open>\<open>\s*<td[^>]*>([\d,\.]+)\s*<\/td>\<close>\<close>

definition isAvgChar :: "char \<Rightarrow> bool" where
  "isAvgChar c = (isDigit c \<or> c = CHR '','' \<or> c = CHR ''.'')"

definition avgCell :: "string \<Rightarrow> (string \<times> string) option" where
  "avgCell s =
     (case afterTagOpen ''<td'' (skipWs s) of
        None \<Rightarrow> None
      | Some r1 \<Rightarrow>
          if takeWhile isAvgChar r1 = [] then None
          else map_option (Pair (takeWhile isAvgChar r1))
                 (lit ''</td>'' (skipWs (dropWhile isAvgChar r1))))"

text \<open>The captures 2 to 6 of one match.\<close>

record rowCaps =
  capPass :: string
  capFail :: string
  capTotal :: string
  capPct :: "string \<times> string"
  capAvg :: string

text \<open>Everything after the first cell, up to and including \<open>\s*<\/tr>\<close>.\<close>

definition rowTail :: "string \<Rightarrow> (rowCaps \<times> string) option" where
  "rowTail s =
     (case badgeCell s of None \<Rightarrow> None | Some (p, s1) \<Rightarrow>
     (case badgeCell s1 of None \<Rightarrow> None | Some (f, s2) \<Rightarrow>
     (case plainCell s2 of None \<Rightarrow> None | Some (t, s3) \<Rightarrow>
     (case pctCell s3 of None \<Rightarrow> None | Some (pc, s4) \<Rightarrow>
     (case avgCell s4 of None \<Rightarrow> None | Some (a, s5) \<Rightarrow>
     (case lit ''</tr>'' (skipWs s5) of None \<Rightarrow> None | Some s6 \<Rightarrow>
        Some (\<lparr>capPass = p, capFail = f, capTotal = t, capPct = pc, capAvg = a\<rparr>, s6)))))))"

text \<open>
  The first cell \<open>(.*?)<\/td>\<close> is lazy: the capture ends at the first \<open></td>\<close>
  after which the rest of the row matches, and \<open>.\<close> does not cross a line break. The
  first argument is the capture so far, reversed.
\<close>

definition isLineTerminator :: "char \<Rightarrow> bool" where
  "isLineTerminator c = (codeOf c = 10 \<or> codeOf c = 13)"

fun lazyCell :: "string \<Rightarrow> string \<Rightarrow> ((string \<times> rowCaps) \<times> string) option" where
  "lazyCell acc [] = None"
| "lazyCell acc (c # cs) =
     (case (case lit ''</td>'' (c # cs) of None \<Rightarrow> None | Some r \<Rightarrow> rowTail r) of
        Some (caps, rest) \<Rightarrow> Some ((rev acc, caps), rest)
      | None \<Rightarrow> if isLineTerminator c then None else lazyCell (c # acc) cs)"

text \<open>The whole expression at the current position: \<open><tr[^>]*>\s*<td>\<close>, then the cells.\<close>

definition rowAt :: "string \<Rightarrow> ((string \<times> rowCaps) \<times> string) option" where
  "rowAt s =
     (case afterTagOpen ''<tr'' s of
        None \<Rightarrow> None
      | Some r \<Rightarrow>
          (case lit ''<td>'' (skipWs r) of
             None \<Rightarrow> None
           | Some r2 \<Rightarrow> lazyCell [] r2))"

lemma lit_le: "lit pat s = Some r \<Longrightarrow> length r \<le> length s"
  by (auto simp: lit_def split: if_splits)

lemma afterTagOpen_less: "afterTagOpen nm s = Some r \<Longrightarrow> length r < length s"
proof -
  assume a: "afterTagOpen nm s = Some r"
  then obtain x where x: "dropWhile (\<lambda>c. c \<noteq> CHR ''>'') (drop (length nm) s) = x # r"
    by (auto simp: afterTagOpen_def split: if_splits list.splits)
  have "length (x # r) \<le> length (drop (length nm) s)"
    unfolding x [symmetric] by (rule length_dropWhile_le)
  then show ?thesis by simp
qed

lemma skipWs_le: "length (skipWs s) \<le> length s"
  by (simp add: skipWs_def length_dropWhile_le)

lemma optional_le: "(\<And>r. p s = Some r \<Longrightarrow> length r \<le> length s) \<Longrightarrow> length (optional p s) \<le> length s"
  by (auto simp: optional_def split: option.splits)

lemma digits1_le: "digits1 s = Some (d, r) \<Longrightarrow> length r \<le> length s"
  by (auto simp: digits1_def length_dropWhile_le split: if_splits)

lemma badgeCell_le: "badgeCell s = Some (d, r) \<Longrightarrow> length r \<le> length s"
proof -
  assume a: "badgeCell s = Some (d, r)"
  then obtain r1 r2 where
    1: "afterTagOpen ''<td'' (skipWs s) = Some r1"
    and 2: "digits1 (optional (afterTagOpen ''<span'') r1) = Some (d, r2)"
    and 3: "lit ''</td>'' (optional (lit ''</span>'') r2) = Some r"
    by (auto simp: badgeCell_def split: option.splits)
  have "length r \<le> length (optional (lit ''</span>'') r2)" using 3 by (rule lit_le)
  also have "\<dots> \<le> length r2" by (rule optional_le) (rule lit_le)
  also have "\<dots> \<le> length (optional (afterTagOpen ''<span'') r1)" using 2 by (rule digits1_le)
  also have "\<dots> \<le> length r1"
    by (rule optional_le) (drule afterTagOpen_less, simp)
  also have "\<dots> \<le> length (skipWs s)" using afterTagOpen_less [OF 1] by simp
  also have "\<dots> \<le> length s" by (rule skipWs_le)
  finally show ?thesis .
qed

lemma plainCell_le: "plainCell s = Some (d, r) \<Longrightarrow> length r \<le> length s"
proof -
  assume a: "plainCell s = Some (d, r)"
  then obtain r1 r2 where
    1: "afterTagOpen ''<td'' (skipWs s) = Some r1"
    and 2: "digits1 r1 = Some (d, r2)"
    and 3: "lit ''</td>'' r2 = Some r"
    by (auto simp: plainCell_def split: option.splits)
  have "length r \<le> length r2" using 3 by (rule lit_le)
  also have "\<dots> \<le> length r1" using 2 by (rule digits1_le)
  also have "\<dots> \<le> length (skipWs s)" using afterTagOpen_less [OF 1] by simp
  also have "\<dots> \<le> length s" by (rule skipWs_le)
  finally show ?thesis .
qed

lemma fraction_le: "fraction s = (f, r) \<Longrightarrow> length r \<le> length s"
  by (auto simp: fraction_def length_dropWhile_le le_SucI split: list.splits if_splits)

lemma pctCell_le: "pctCell s = Some (d, r) \<Longrightarrow> length r \<le> length s"
proof -
  assume a: "pctCell s = Some (d, r)"
  then obtain r1 d1 r2 f r3 where
    1: "afterTagOpen ''<td'' (skipWs s) = Some r1"
    and 2: "digits1 r1 = Some (d1, r2)"
    and 3: "fraction r2 = (f, r3)"
    and 4: "lit ''</td>'' (skipWs (optional (lit ''%'') (skipWs r3))) = Some r"
    by (auto simp: pctCell_def split: option.splits prod.splits)
  have "length r \<le> length (skipWs (optional (lit ''%'') (skipWs r3)))" using 4 by (rule lit_le)
  also have "\<dots> \<le> length (optional (lit ''%'') (skipWs r3))" by (rule skipWs_le)
  also have "\<dots> \<le> length (skipWs r3)" by (rule optional_le) (rule lit_le)
  also have "\<dots> \<le> length r3" by (rule skipWs_le)
  also have "\<dots> \<le> length r2" using 3 by (rule fraction_le)
  also have "\<dots> \<le> length r1" using 2 by (rule digits1_le)
  also have "\<dots> \<le> length (skipWs s)" using afterTagOpen_less [OF 1] by simp
  also have "\<dots> \<le> length s" by (rule skipWs_le)
  finally show ?thesis .
qed

lemma avgCell_le: "avgCell s = Some (d, r) \<Longrightarrow> length r \<le> length s"
proof -
  assume a: "avgCell s = Some (d, r)"
  then obtain r1 where
    1: "afterTagOpen ''<td'' (skipWs s) = Some r1"
    and 2: "lit ''</td>'' (skipWs (dropWhile isAvgChar r1)) = Some r"
    by (auto simp: avgCell_def split: option.splits if_splits)
  have "length r \<le> length (skipWs (dropWhile isAvgChar r1))" using 2 by (rule lit_le)
  also have "\<dots> \<le> length (dropWhile isAvgChar r1)" by (rule skipWs_le)
  also have "\<dots> \<le> length r1" by (rule length_dropWhile_le)
  also have "\<dots> \<le> length (skipWs s)" using afterTagOpen_less [OF 1] by simp
  also have "\<dots> \<le> length s" by (rule skipWs_le)
  finally show ?thesis .
qed

lemma rowTail_le: "rowTail s = Some (caps, r) \<Longrightarrow> length r \<le> length s"
proof -
  assume a: "rowTail s = Some (caps, r)"
  then obtain p s1 f s2 t s3 pc s4 av s5 where
    1: "badgeCell s = Some (p, s1)" and 2: "badgeCell s1 = Some (f, s2)"
    and 3: "plainCell s2 = Some (t, s3)" and 4: "pctCell s3 = Some (pc, s4)"
    and 5: "avgCell s4 = Some (av, s5)" and 6: "lit ''</tr>'' (skipWs s5) = Some r"
    by (auto simp: rowTail_def split: option.splits)
  have "length r \<le> length (skipWs s5)" using 6 by (rule lit_le)
  also have "\<dots> \<le> length s5" by (rule skipWs_le)
  also have "\<dots> \<le> length s4" using 5 by (rule avgCell_le)
  also have "\<dots> \<le> length s3" using 4 by (rule pctCell_le)
  also have "\<dots> \<le> length s2" using 3 by (rule plainCell_le)
  also have "\<dots> \<le> length s1" using 2 by (rule badgeCell_le)
  also have "\<dots> \<le> length s" using 1 by (rule badgeCell_le)
  finally show ?thesis .
qed

lemma lazyCell_le: "lazyCell acc s = Some (m, r) \<Longrightarrow> length r \<le> length s"
proof (induction s arbitrary: acc)
  case Nil
  then show ?case by simp
next
  case (Cons c cs)
  show ?case
  proof (cases "case lit ''</td>'' (c # cs) of None \<Rightarrow> None | Some r \<Rightarrow> rowTail r")
    case None
    with Cons.prems have "lazyCell (c # acc) cs = Some (m, r)"
      by (simp split: if_splits)
    from Cons.IH [OF this] show ?thesis by simp
  next
    case (Some a)
    then obtain caps rest r0 where a: "a = (caps, rest)"
      and l: "lit ''</td>'' (c # cs) = Some r0" and t: "rowTail r0 = Some (caps, rest)"
      by (cases a) (auto split: option.splits)
    from Some a Cons.prems have "r = rest" by simp
    with lit_le [OF l] rowTail_le [OF t] show ?thesis by simp
  qed
qed

lemma rowAt_less: "rowAt s = Some (m, r) \<Longrightarrow> length r < length s"
proof -
  assume a: "rowAt s = Some (m, r)"
  then obtain r1 r2 where 1: "afterTagOpen ''<tr'' s = Some r1"
    and 2: "lit ''<td>'' (skipWs r1) = Some r2" and 3: "lazyCell [] r2 = Some (m, r)"
    by (auto simp: rowAt_def split: option.splits)
  have "length r \<le> length r2" using 3 by (rule lazyCell_le)
  also have "\<dots> \<le> length (skipWs r1)" using 2 by (rule lit_le)
  also have "\<dots> \<le> length r1" by (rule skipWs_le)
  also have "\<dots> < length s" using 1 by (rule afterTagOpen_less)
  finally show ?thesis .
qed

text \<open>
  The loop \<open>while ((m = re.exec(htmlText)))\<close> of a global expression: the leftmost
  match, then the search goes on after it.
\<close>

function scanRows :: "string \<Rightarrow> (string \<times> rowCaps) list" where
  "scanRows [] = []"
| "scanRows (c # cs) =
     (case rowAt (c # cs) of
        None \<Rightarrow> scanRows cs
      | Some (m, rest) \<Rightarrow> m # scanRows rest)"
  by pat_completeness auto
termination
  by (relation "measure length") (auto dest: rowAt_less)

text \<open>
  The folder-name cell. First
  \<open>cell.replace(/<span[^>]*class=["'][^"']*badge[^"']*["'][^>]*>.*?<\/span>/gi, "")\<close>.
  At a position holding \<open><span\<close>, the greedy \<open>[^>]*\<close> offers the occurrences of
  \<open>class=\<close> before the first \<open>>\<close> from the last one to the first one; for each, the
  value runs from the quote to the next quote and must contain \<open>badge\<close>; the tag then
  ends at the next \<open>>\<close> and the span at the first \<open></span>\<close> on the same line.
  \<open>badgeFrom\<close> tries one occurrence: its argument is the text after \<open>class=\<close>, and
  the result is the text after the span.
\<close>

fun lineFindAfter :: "string \<Rightarrow> string \<Rightarrow> string option" where
  "lineFindAfter pat [] = None"
| "lineFindAfter pat (c # cs) =
     (if startsWithCI pat (c # cs) then Some (drop (length pat) (c # cs))
      else if isLineTerminator c then None
      else lineFindAfter pat cs)"

definition isQuote :: "char \<Rightarrow> bool" where
  "isQuote c = (c = CHR 0x22 \<or> c = CHR 0x27)"

definition badgeFrom :: "string \<Rightarrow> string option" where
  "badgeFrom s =
     (case s of
        [] \<Rightarrow> None
      | q # r \<Rightarrow>
          if isQuote q
             \<and> jsIncludes ''badge'' (toLowerCase (takeWhile (\<lambda>c. \<not> isQuote c) r))
             \<and> dropWhile (\<lambda>c. \<not> isQuote c) r \<noteq> []
          then (case dropWhile (\<lambda>c. c \<noteq> CHR ''>'') (tl (dropWhile (\<lambda>c. \<not> isQuote c) r)) of
                  [] \<Rightarrow> None
                | _ # body \<Rightarrow> lineFindAfter ''</span>'' body)
          else None)"

text \<open>
  The occurrences of \<open>class=\<close> in the text before the first \<open>>\<close>, last one first: the
  result of the last occurrence that matches wins over an earlier one.
\<close>

fun badgeTry :: "string \<Rightarrow> string option" where
  "badgeTry [] = None"
| "badgeTry (c # cs) =
     (if c = CHR ''>'' then None
      else (case badgeTry cs of
              Some r \<Rightarrow> Some r
            | None \<Rightarrow> (case lit ''class='' (c # cs) of None \<Rightarrow> None | Some v \<Rightarrow> badgeFrom v)))"

definition badgeAt :: "string \<Rightarrow> string option" where
  "badgeAt s = (case lit ''<span'' s of None \<Rightarrow> None | Some r \<Rightarrow> badgeTry r)"

lemma lineFindAfter_le: "lineFindAfter pat s = Some r \<Longrightarrow> length r \<le> length s"
  by (induction s) (auto split: if_splits)

lemma badgeFrom_le: "badgeFrom s = Some r \<Longrightarrow> length r \<le> length s"
proof -
  assume a: "badgeFrom s = Some r"
  then obtain q r0 x body where s: "s = q # r0"
    and d: "dropWhile (\<lambda>c. c \<noteq> CHR ''>'') (tl (dropWhile (\<lambda>c. \<not> isQuote c) r0)) = x # body"
    and l: "lineFindAfter ''</span>'' body = Some r"
    by (auto simp: badgeFrom_def split: list.splits if_splits)
  have "length r \<le> length body" using l by (rule lineFindAfter_le)
  also have "\<dots> \<le> length (x # body)" by simp
  also have "\<dots> \<le> length (tl (dropWhile (\<lambda>c. \<not> isQuote c) r0))"
    unfolding d [symmetric] by (rule length_dropWhile_le)
  also have "\<dots> \<le> length (dropWhile (\<lambda>c. \<not> isQuote c) r0)" by simp
  also have "\<dots> \<le> length r0" by (rule length_dropWhile_le)
  finally show ?thesis using s by simp
qed

lemma badgeTry_le: "badgeTry s = Some r \<Longrightarrow> length r \<le> length s"
proof (induction s)
  case Nil
  then show ?case by simp
next
  case (Cons c cs)
  show ?case
  proof (cases "badgeTry cs")
    case None
    with Cons.prems obtain v where "lit ''class='' (c # cs) = Some v" "badgeFrom v = Some r"
      by (auto split: if_splits option.splits)
    with lit_le badgeFrom_le show ?thesis by (metis le_trans)
  next
    case (Some a)
    with Cons.prems have "a = r" by (auto split: if_splits)
    with Some Cons.IH show ?thesis by simp
  qed
qed

lemma badgeAt_less: "badgeAt (c # cs) = Some r \<Longrightarrow> length r < length (c # cs)"
proof -
  assume "badgeAt (c # cs) = Some r"
  then obtain r0 where l: "lit ''<span'' (c # cs) = Some r0" and t: "badgeTry r0 = Some r"
    by (auto simp: badgeAt_def split: option.splits)
  from l have "length r0 < length (c # cs)"
    by (auto simp: lit_def split: if_splits)
  with badgeTry_le [OF t] show ?thesis by simp
qed

function stripBadges :: "string \<Rightarrow> string" where
  "stripBadges [] = []"
| "stripBadges (c # cs) =
     (case badgeAt (c # cs) of
        None \<Rightarrow> c # stripBadges cs
      | Some rest \<Rightarrow> stripBadges rest)"
  by pat_completeness auto
termination
  by (relation "measure length") (auto dest: badgeAt_less)

text \<open>\<open>cell.replace(/<[^>]*>/g, "")\<close>\<close>

function stripTags :: "string \<Rightarrow> string" where
  "stripTags [] = []"
| "stripTags (c # cs) =
     (if c = CHR ''<'' \<and> dropWhile (\<lambda>d. d \<noteq> CHR ''>'') cs \<noteq> []
      then stripTags (tl (dropWhile (\<lambda>d. d \<noteq> CHR ''>'') cs))
      else c # stripTags cs)"
  by pat_completeness auto
termination
proof (relation "measure length", goal_cases)
  case 1
  then show ?case by simp
next
  case (2 c cs)
  have "length (tl (dropWhile (\<lambda>d. d \<noteq> CHR ''>'') cs)) \<le> length (dropWhile (\<lambda>d. d \<noteq> CHR ''>'') cs)"
    by simp
  also have "\<dots> \<le> length cs" by (rule length_dropWhile_le)
  finally show ?case by simp
next
  case (3 c cs)
  then show ?case by simp
qed

text \<open>\<open>api.replace(/\s+\d+$/, "")\<close>: a trailing counter with the white space before it.\<close>

definition stripCounter :: "string \<Rightarrow> string" where
  "stripCounter s =
     (let r = rev s; ds = takeWhile isDigit r; r1 = dropWhile isDigit r
      in if ds \<noteq> [] \<and> takeWhile isSpace r1 \<noteq> [] then rev (dropWhile isSpace r1) else s)"

definition cellApi :: "string \<Rightarrow> string" where
  "cellApi cell = stripCounter (trim (stripTags (stripBadges cell)))"

text \<open>
  \<open>Number\<close> of the captures. The pass rate has digits and maybe a fraction. The latency
  has its commas removed first and is then a number only if it is empty (0) or a decimal
  literal with at most one dot and at least one digit.
\<close>

definition decimalValue :: "string \<Rightarrow> string \<Rightarrow> rat" where
  "decimalValue ip fp = of_nat (natOfDigits ip) + of_nat (natOfDigits fp) / 10 ^ length fp"

definition avgNumber :: "string \<Rightarrow> rat option" where
  "avgNumber cap =
     (let t = filter (\<lambda>c. c \<noteq> CHR '','') cap;
          ip = takeWhile isDigit t;
          r = dropWhile isDigit t
      in if t = [] then Some 0
         else if r = [] then Some (decimalValue ip [])
         else if list_all isDigit (tl r) \<and> (ip \<noteq> [] \<or> tl r \<noteq> [])
           then Some (decimalValue ip (tl r))
         else None)"

definition mkRow :: "string \<Rightarrow> string \<Rightarrow> string \<times> rowCaps \<Rightarrow> row" where
  "mkRow parent modl m =
     \<lparr>r_parent = parent, r_module = modl, r_api = cellApi (fst m),
      r_pass = natOfDigits (capPass (snd m)), r_fail = natOfDigits (capFail (snd m)),
      r_total = natOfDigits (capTotal (snd m)),
      r_passPct = decimalValue (fst (capPct (snd m))) (snd (capPct (snd m))),
      r_avg = avgNumber (capAvg (snd m))\<rparr>"

definition parseSuiteRows :: "string \<Rightarrow> row list" where
  "parseSuiteRows htmlText =
     map (mkRow (extractParent htmlText) (extractModule htmlText)) (scanRows htmlText)"

section \<open>The combiner: soft failures\<close>

text \<open>\<open>SOFT = /(\+\s*-->\s*Failing|\+\s*--&gt;\s*Failing)/i\<close>\<close>

definition softAt :: "string \<Rightarrow> bool" where
  "softAt s =
     (case lit ''+'' s of
        None \<Rightarrow> False
      | Some r \<Rightarrow>
          (case lit ''-->'' (skipWs r) of
             Some r1 \<Rightarrow> startsWithCI ''failing'' (skipWs r1)
           | None \<Rightarrow> False)
          \<or> (case lit ''--&gt;'' (skipWs r) of
                Some r1 \<Rightarrow> startsWithCI ''failing'' (skipWs r1)
              | None \<Rightarrow> False))"

fun softTest :: "string \<Rightarrow> bool" where
  "softTest [] = False"
| "softTest (c # cs) = (softAt (c # cs) \<or> softTest cs)"

text \<open>
  The expression built for one API name,
  \<open><summary[^>]*>\s*<b>\s*NAME\s*<\/b>[\s\S]*?<\/summary>\<close> with flag \<open>i\<close>, where
  \<open>escapeRegExp\<close> has made every character of the name a literal. The white space
  before the name may be given back to the name, so every split of it is tried.
\<close>

definition nameThenClose :: "string \<Rightarrow> string \<Rightarrow> bool" where
  "nameThenClose nm s =
     (case lit (toLowerCase nm) s of
        None \<Rightarrow> False
      | Some r \<Rightarrow>
          (case lit ''</b>'' (skipWs r) of
             None \<Rightarrow> False
           | Some r1 \<Rightarrow> findAfterCI ''</summary>'' r1 \<noteq> None))"

definition apiHeadAt :: "string \<Rightarrow> string \<Rightarrow> bool" where
  "apiHeadAt nm s =
     (case afterTagOpen ''<summary'' s of
        None \<Rightarrow> False
      | Some r \<Rightarrow>
          (case lit ''<b>'' (skipWs r) of
             None \<Rightarrow> False
           | Some r2 \<Rightarrow>
               list_ex (\<lambda>k. nameThenClose nm (drop k r2))
                 [0 ..< Suc (length (takeWhile isSpace r2))]))"

text \<open>\<open>htmlText.match(apiRe)\<close>: only the index of the leftmost match is used.\<close>

fun apiMatchIndex :: "string \<Rightarrow> string \<Rightarrow> nat option" where
  "apiMatchIndex nm [] = None"
| "apiMatchIndex nm (c # cs) =
     (if apiHeadAt nm (c # cs) then Some 0 else map_option Suc (apiMatchIndex nm cs))"

text \<open>\<open>s.indexOf(pat, from)\<close> and \<open>s.lastIndexOf(pat, from)\<close>, case-sensitive.\<close>

fun indexOf :: "string \<Rightarrow> string \<Rightarrow> nat option" where
  "indexOf pat [] = (if pat = [] then Some 0 else None)"
| "indexOf pat (c # cs) =
     (if take (length pat) (c # cs) = pat then Some 0 else map_option Suc (indexOf pat cs))"

definition indexOfFrom :: "string \<Rightarrow> string \<Rightarrow> nat \<Rightarrow> nat option" where
  "indexOfFrom pat s from = map_option (\<lambda>i. i + min from (length s)) (indexOf pat (drop from s))"

text \<open>The greatest index not above \<open>from\<close> at which the pattern starts.\<close>

fun lastIndexUpTo :: "string \<Rightarrow> string \<Rightarrow> nat \<Rightarrow> nat option" where
  "lastIndexUpTo pat s 0 = (if take (length pat) s = pat then Some 0 else None)"
| "lastIndexUpTo pat s (Suc n) =
     (if take (length pat) (drop (Suc n) s) = pat then Some (Suc n) else lastIndexUpTo pat s n)"

definition lastIndexOfFrom :: "string \<Rightarrow> string \<Rightarrow> nat \<Rightarrow> nat option" where
  "lastIndexOfFrom pat s from = lastIndexUpTo pat s (min from (length s - length pat))"

text \<open>\<open>s.slice(a, b)\<close> for indices within the text.\<close>

definition slice :: "string \<Rightarrow> nat \<Rightarrow> nat \<Rightarrow> string" where
  "slice s a b = take (b - a) (drop a s)"

text \<open>\<open>Array.from(new Set(xs))\<close>: the first occurrences, in order.\<close>

definition uniq :: "'a list \<Rightarrow> 'a list" where
  "uniq xs = foldl setAdd [] xs"

text \<open>
  The API names scanned for soft failures, and the test of one API: whether the loop
  body of \<open>detectSoftFailApis\<close> adds it to \<open>flagged\<close>.
\<close>

definition softApiList :: "string \<Rightarrow> row list \<Rightarrow> string list" where
  "softApiList htmlText fallbackRows =
     (let apis = extractSuiteApis htmlText
      in if apis \<noteq> [] then apis
         else uniq (filter (\<lambda>a. a \<noteq> []) (map r_api fallbackRows)))"

definition softFlagged :: "string \<Rightarrow> string \<Rightarrow> bool" where
  "softFlagged htmlText apiName =
     (if apiName = [] then False
      else case apiMatchIndex apiName htmlText of
        None \<Rightarrow>
          (case indexOf (''<b>'' @ toLowerCase apiName @ ''</b>'') (toLowerCase htmlText) of
             None \<Rightarrow> False
           | Some roughIdx \<Rightarrow>
               softTest (slice htmlText roughIdx (min (length htmlText) (roughIdx + 30000))))
      | Some startIdx \<Rightarrow>
          (let prevDetailsIdx = lastIndexOfFrom ''<details'' htmlText startIdx;
               endDetailsIdx = indexOfFrom ''</details>'' htmlText startIdx
           in softTest
                (slice htmlText
                   (case prevDetailsIdx of Some i \<Rightarrow> i | None \<Rightarrow> startIdx)
                   (case endDetailsIdx of
                      Some j \<Rightarrow> j
                    | None \<Rightarrow> min (length htmlText) (startIdx + 30000)))))"

text \<open>The set \<open>flagged\<close>, as the list of its members in insertion order.\<close>

definition detectSoftFailApis :: "string \<Rightarrow> row list \<Rightarrow> string list" where
  "detectSoftFailApis htmlText fallbackRows =
     uniq (filter (softFlagged htmlText) (softApiList htmlText fallbackRows))"

text \<open>The API names \<open>main\<close> uses for unique counting.\<close>

definition mainApiList :: "string \<Rightarrow> string list" where
  "mainApiList html =
     (let rows = parseSuiteRows html; apis = extractSuiteApis html
      in if apis \<noteq> [] then apis
         else uniq (filter (\<lambda>a. a \<noteq> []) (map r_api rows)))"

definition parseDoc :: "string \<Rightarrow> parsedDoc" where
  "parseDoc html =
     \<lparr>d_parent = extractParent html, d_rows = parseSuiteRows html, d_apiList = mainApiList html\<rparr>"

text \<open>The style sheet \<open>css\<close>, as written in the script.\<close>

definition css :: string where
  \<open>css =
     [CHR 0x0A]
     @ '':root{'' @ [CHR 0x0A]
     @ ''  --bg:#f7f8fc; --card:#fff; --text:#0f172a; --muted:#6b7280; --line:#e5''
     @ ''e7eb;'' @ [CHR 0x0A]
     @ ''  --ok:#166534; --ng:#991b1b; --accent:#3b82f6;'' @ [CHR 0x0A]
     @ ''}'' @ [CHR 0x0A]
     @ ''*{box-sizing:border-box}'' @ [CHR 0x0A]
     @ ''body{font-family:Inter,system-ui,-apple-system,Segoe UI,Roboto,Arial,san''
     @ ''s-serif;margin:24px;background:var(--bg);color:var(--text)}'' @ [CHR 0x0A]
     @ ''h1{margin:0 0 6px;font-size:34px}'' @ [CHR 0x0A]
     @ ''small{color:var(--muted)}'' @ [CHR 0x0A]
     @ ''.kpis{display:grid;grid-template-columns:repeat(5,minmax(0,1fr));gap:14p''
     @ ''x;margin:16px 0}'' @ [CHR 0x0A]
     @ ''@media(max-width:1200px){.kpis{grid-template-columns:repeat(3,minmax(0,1''
     @ ''fr))}}'' @ [CHR 0x0A]
     @ ''@media(max-width:760px){.kpis{grid-template-columns:repeat(2,minmax(0,1f''
     @ ''r))}}'' @ [CHR 0x0A]
     @ ''.kpi{background:var(--card);border:1px solid var(--line);border-radius:1''
     @ ''6px;padding:16px}'' @ [CHR 0x0A]
     @ ''.kpi b{display:block;font-size:28px}'' @ [CHR 0x0A]
     @ ''.kpi span{color:var(--muted)}'' @ [CHR 0x0A]
     @ ''.card{border:1px solid var(--line);border-radius:16px;padding:16px;margi''
     @ ''n:16px 0;background:var(--card)}'' @ [CHR 0x0A]
     @ ''.canvas-row{display:grid;grid-template-columns:repeat(2,minmax(0,1fr));g''
     @ ''ap:16px}'' @ [CHR 0x0A]
     @ ''@media(max-width:1100px){.canvas-row{grid-template-columns:1fr}}'' @ [CHR 0x0A]
     @ ''.chart-box{border:1px solid var(--line);border-radius:16px;padding:10px;''
     @ ''background:#fff}'' @ [CHR 0x0A]
     @ ''table{width:100%;border-collapse:collapse;border-radius:12px;overflow:hi''
     @ ''dden}'' @ [CHR 0x0A]
     @ ''th,td{border-bottom:1px solid var(--line);padding:12px 14px;text-align:l''
     @ ''eft;vertical-align:top}'' @ [CHR 0x0A]
     @ ''th{background:#f3f4f6}'' @ [CHR 0x0A]
     @ ''tr:last-child td{border-bottom:none}'' @ [CHR 0x0A]
     @ ''.badge{display:inline-block;padding:2px 8px;border-radius:999px;font-siz''
     @ ''e:12px}'' @ [CHR 0x0A]
     @ ''.badge.pass{background:#dcfce7;color:var(--ok)}'' @ [CHR 0x0A]
     @ ''.badge.fail{background:#fee2e2;color:var(--ng)}'' @ [CHR 0x0A]
     @ ''/* Inline expand card */'' @ [CHR 0x0A]
     @ ''tr.subrow td{background:#f9fafb;border-top:none;padding:0}'' @ [CHR 0x0A]
     @ ''.expand-card{'' @ [CHR 0x0A]
     @ ''  background:#fff;border:1px solid var(--line);border-radius:16px;'' @ [CHR 0x0A]
     @ ''  margin:10px 0;padding:12px 16px;box-shadow:0 1px 3px rgba(0,0,0,.05)'' @ [CHR 0x0A]
     @ ''}'' @ [CHR 0x0A]
     @ ''.api-chip{'' @ [CHR 0x0A]
     @ ''  display:inline-flex;align-items:center;gap:6px;border:1px solid var(--''
     @ ''line);'' @ [CHR 0x0A]
     @ ''  border-radius:999px;padding:6px 10px;margin:6px 8px 0 0;background:#fd''
     @ ''fdfd'' @ [CHR 0x0A]
     @ ''}'' @ [CHR 0x0A]
     @ ''.api-chip b{font-weight:600}'' @ [CHR 0x0A]
     @ ''.api-chip .muted{font-size:12px;color:var(--muted)}'' @ [CHR 0x0A]
     @ ''/* Details + modal */'' @ [CHR 0x0A]
     @ ''details{margin:10px 0;border:1px solid var(--line);border-radius:12px;ov''
     @ ''erflow:hidden;background:#fff}'' @ [CHR 0x0A]
     @ ''summary{cursor:pointer;padding:12px 14px;background:#f8fafc;display:flex''
     @ '';gap:10px;align-items:center;flex-wrap:wrap}'' @ [CHR 0x0A]
     @ ''summary button{margin-left:auto}'' @ [CHR 0x0A]
     @ ''.block{padding:12px;border-top:1px solid var(--line)}'' @ [CHR 0x0A]
     @ ''.muted{color:var(--muted)}'' @ [CHR 0x0A]
     @ ''.modal{position:fixed;inset:0;display:none}'' @ [CHR 0x0A]
     @ ''.modal.show{display:block}'' @ [CHR 0x0A]
     @ ''.modal .backdrop{position:absolute;inset:0;background:rgba(0,0,0,.35)}'' @ [CHR 0x0A]
     @ ''.modal .dialog{'' @ [CHR 0x0A]
     @ ''  position:absolute;top:50%;left:50%;transform:translate(-50%,-50%);'' @ [CHR 0x0A]
     @ ''  width:min(940px,92vw);max-height:85vh;background:#fff;border-radius:14''
     @ ''px;'' @ [CHR 0x0A]
     @ ''  border:1px solid var(--line);box-shadow:0 10px 30px rgba(0,0,0,.2);'' @ [CHR 0x0A]
     @ ''  display:flex;flex-direction:column;overflow:hidden'' @ [CHR 0x0A]
     @ ''}'' @ [CHR 0x0A]
     @ ''.modal .head{display:flex;justify-content:space-between;align-items:cent''
     @ ''er;padding:10px 12px;border-bottom:1px solid var(--line)}'' @ [CHR 0x0A]
     @ ''.modal .head h4{margin:0;font-size:16px}'' @ [CHR 0x0A]
     @ ''.modal .head .x{border:none;background:transparent;font-size:22px;line-h''
     @ ''eight:1;cursor:pointer;padding:4px 8px}'' @ [CHR 0x0A]
     @ ''.modal .body{padding:12px;overflow:auto}'' @ [CHR 0x0A]
     @ ''.modal pre{white-space:pre-wrap;word-wrap:break-word;background:#f8fafc;''
     @ ''border:1px solid var(--line);border-radius:10px;padding:12px;margin:0}'' @ [CHR 0x0A]\<close>

text \<open>
  The constant text of the document template, between its interpolations. A character
  outside ASCII (an ellipsis, a dash, a middle dot, a multiplication sign, a bullet) is
  one code unit and is written as the code 0x85, 0x97, 0xB7, 0xD7 or 0x95; none of them
  is white space, a line break, or a character that an expression tests for.
\<close>

definition tpl01 :: string where
  \<open>tpl01 =
     ''<!doctype html>'' @ [CHR 0x0A]
     @ ''<html>'' @ [CHR 0x0A]
     @ ''<head>'' @ [CHR 0x0A]
     @ ''<meta http-equiv="Content-Type" content="text/html; charset=utf-8">'' @ [CHR 0x0A]
     @ ''<meta charset="utf-8"/>'' @ [CHR 0x0A]
     @ ''<meta name="viewport" content="width=device-width,initial-scale=1"/>'' @ [CHR 0x0A]
     @ ''<meta name="suite-parent" content="''\<close>

definition tpl02 :: string where
  \<open>tpl02 =
     ''"/>'' @ [CHR 0x0A]
     @ ''<meta name="suite-module" content="''\<close>

definition tpl03 :: string where
  \<open>tpl03 =
     ''"/>'' @ [CHR 0x0A]
     @ ''<title>''\<close>

definition tpl04 :: string where
  \<open>tpl04 =
     ''</title>'' @ [CHR 0x0A]
     @ ''<style>''\<close>

definition tpl05 :: string where
  \<open>tpl05 =
     ''</style>'' @ [CHR 0x0A]
     @ ''</head>'' @ [CHR 0x0A]
     @ ''<body>'' @ [CHR 0x0A]
     @ ''  <h1>''\<close>

definition tpl06 :: string where
  \<open>tpl06 =
     ''</h1>'' @ [CHR 0x0A]
     @ ''  <small>Generated: ''\<close>

definition tpl07 :: string where
  \<open>tpl07 =
     ''</small>'' @ [CHR 0x0A, CHR 0x0A]
     @ ''  <div class="kpis">'' @ [CHR 0x0A]
     @ ''    <div class="kpi"><b>''\<close>

definition tpl08 :: string where
  \<open>tpl08 =
     ''%</b><span>Pass Rate</span></div>'' @ [CHR 0x0A]
     @ ''    <div class="kpi"><b>''\<close>

definition tpl09 :: string where
  \<open>tpl09 =
     ''</b><span>Total Test Cases</span></div>'' @ [CHR 0x0A]
     @ ''    <div class="kpi"><b>''\<close>

definition tpl10 :: string where
  \<open>tpl10 =
     ''</b><span>Passed</span></div>'' @ [CHR 0x0A]
     @ ''    <div class="kpi"><b>''\<close>

definition tpl11 :: string where
  \<open>tpl11 =
     ''</b><span>Failed</span></div>'' @ [CHR 0x0A]
     @ ''    <div class="kpi"><b>''\<close>

definition tpl12 :: string where
  \<open>tpl12 =
     ''%</b><span>Within SLA (''\<close>

definition tpl13 :: string where
  \<open>tpl13 =
     '' ms)</span></div>'' @ [CHR 0x0A]
     @ ''  </div>'' @ [CHR 0x0A, CHR 0x0A]
     @ ''  <div class="card">'' @ [CHR 0x0A]
     @ ''    <div class="canvas-row">'' @ [CHR 0x0A]
     @ ''      <div class="chart-box"><canvas id="barPass"></canvas></div>'' @ [CHR 0x0A]
     @ ''      <div class="chart-box"><canvas id="barResp"></canvas></div>'' @ [CHR 0x0A]
     @ ''    </div>'' @ [CHR 0x0A]
     @ ''  </div>'' @ [CHR 0x0A, CHR 0x0A]
     @ ''  <div class="card">'' @ [CHR 0x0A]
     @ ''    <h3 style="margin:0 0 8px">Consolidated by <b>Folder</b></h3>'' @ [CHR 0x0A]
     @ ''    <table id="tbl">'' @ [CHR 0x0A]
     @ ''      <thead>'' @ [CHR 0x0A]
     @ ''        <tr>'' @ [CHR 0x0A]
     @ ''          <th>Folder</th>'' @ [CHR 0x0A]
     @ ''          <th>Passed</th>'' @ [CHR 0x0A]
     @ ''          <th>Failed</th>'' @ [CHR 0x0A]
     @ ''          <th>Total</th>'' @ [CHR 0x0A]
     @ ''          <th>Pass %</th>'' @ [CHR 0x0A]
     @ ''          <th>Avg Resp (ms)</th>'' @ [CHR 0x0A]
     @ ''        </tr>'' @ [CHR 0x0A]
     @ ''      </thead>'' @ [CHR 0x0A]
     @ ''      <tbody>'' @ [CHR 0x0A]
     @ ''        ''\<close>

definition tpl14 :: string where
  \<open>tpl14 =
     [CHR 0x0A]
     @ ''      </tbody>'' @ [CHR 0x0A]
     @ ''    </table>'' @ [CHR 0x0A]
     @ ''  </div>'' @ [CHR 0x0A, CHR 0x0A]
     @ ''  <div class="card">'' @ [CHR 0x0A]
     @ ''    <h3 style="margin:0 0 8px">Folder-wise Execution Details (APIs & Che''
     @ ''cks)</h3>'' @ [CHR 0x0A]
     @ ''    ''\<close>

definition tpl15 :: string where
  \<open>tpl15 =
     [CHR 0x0A]
     @ ''  </div>'' @ [CHR 0x0A, CHR 0x0A]
     @ ''  <!-- Hidden JSON: suite API list (for combiner unique count) -->'' @ [CHR 0x0A]
     @ ''  <script type="application/json" id="suite-apis">''\<close>

definition tpl16 :: string where
  \<open>tpl16 =
     ''</script>'' @ [CHR 0x0A, CHR 0x0A]
     @ ''  <!-- Modal -->'' @ [CHR 0x0A]
     @ ''  <div class="modal" id="modal">'' @ [CHR 0x0A]
     @ ''    <div class="backdrop" data-close="1"></div>'' @ [CHR 0x0A]
     @ ''    <div class="dialog">'' @ [CHR 0x0A]
     @ ''      <div class="head">'' @ [CHR 0x0A]
     @ ''        <h4 id="mTitle">Payload</h4>'' @ [CHR 0x0A]
     @ ''        <button class="x" data-close="1" aria-label="Close">'' @ [CHR 0xD7]
     @ ''</button>'' @ [CHR 0x0A]
     @ ''      </div>'' @ [CHR 0x0A]
     @ ''      <div class="body">'' @ [CHR 0x0A]
     @ ''        <pre id="mPre"></pre>'' @ [CHR 0x0A]
     @ ''      </div>'' @ [CHR 0x0A]
     @ ''    </div>'' @ [CHR 0x0A]
     @ ''  </div>'' @ [CHR 0x0A, CHR 0x0A]
     @ ''  <script src="https://cdn.jsdelivr.net/npm/chart.js"></script>'' @ [CHR 0x0A]
     @ ''  <script>'' @ [CHR 0x0A]
     @ ''  const DATA = ''\<close>

definition tpl17 :: string where
  \<open>tpl17 =
     '';'' @ [CHR 0x0A]
     @ ''  const API_SUMMARY = ''\<close>

definition tpl18 :: string where
  \<open>tpl18 =
     '';'' @ [CHR 0x0A, CHR 0x0A]
     @ ''  function computeChartHeight(labelCount){'' @ [CHR 0x0A]
     @ ''    const basePerLabel = Math.max(18, Math.min(28, Math.round(window.inn''
     @ ''erHeight / 45)));'' @ [CHR 0x0A]
     @ ''    const minH = 220;'' @ [CHR 0x0A]
     @ ''    const maxH = Math.round(window.innerHeight * 0.6);'' @ [CHR 0x0A]
     @ ''    return Math.max(minH, Math.min(maxH, basePerLabel * Math.max(4, labe''
     @ ''lCount)));'' @ [CHR 0x0A]
     @ ''  }'' @ [CHR 0x0A]
     @ ''  function trunc(s){'' @ [CHR 0x0A]
     @ ''    if(!s) return s;'' @ [CHR 0x0A]
     @ ''    const max = window.innerWidth < 700 ? 10 : (window.innerWidth < 1100''
     @ '' ? 18 : 26);'' @ [CHR 0x0A]
     @ ''    return s.length > max ? s.slice(0, max-1) + '' @ [CHR 0x27, CHR 0x85, CHR 0x27]
     @ '' : s;'' @ [CHR 0x0A]
     @ ''  }'' @ [CHR 0x0A]
     @ ''  function escHtml(s){return String(s||'' @ [CHR 0x27, CHR 0x27]
     @ '').replace(/&/g,'&amp;').replace(/</g,'&lt;').replace(/>/g,'&gt;')}''
     @ [CHR 0x0A, CHR 0x0A]
     @ ''  let chartPass = null, chartResp = null;'' @ [CHR 0x0A]
     @ ''  function buildCharts(){'' @ [CHR 0x0A]
     @ ''    const labels = DATA.labels || [];'' @ [CHR 0x0A]
     @ ''    const h = computeChartHeight(labels.length);'' @ [CHR 0x0A]
     @ ''    const c1 = document.getElementById('barPass');'' @ [CHR 0x0A]
     @ ''    const c2 = document.getElementById('barResp');'' @ [CHR 0x0A]
     @ ''    if (c1) c1.style.height = h + 'px';'' @ [CHR 0x0A]
     @ ''    if (c2) c2.style.height = h + 'px';'' @ [CHR 0x0A, CHR 0x0A]
     @ ''    const common = (title, max) => ({'' @ [CHR 0x0A]
     @ ''      indexAxis: 'y','' @ [CHR 0x0A]
     @ ''      maintainAspectRatio: false,'' @ [CHR 0x0A]
     @ ''      responsive: true,'' @ [CHR 0x0A]
     @ ''      scales: {'' @ [CHR 0x0A]
     @ ''        x: { beginAtZero: true, max, grid: { display:false } },'' @ [CHR 0x0A]
     @ ''        y: { ticks:{ autoSkip:true, callback:(v,i)=>trunc(labels[i]) }, ''
     @ ''grid:{display:false} }'' @ [CHR 0x0A]
     @ ''      },'' @ [CHR 0x0A]
     @ ''      plugins: { legend:{ display:false }, title:{ display:true, text:ti''
     @ ''tle } },'' @ [CHR 0x0A]
     @ ''      layout: { padding:{top:6,right:6,bottom:6,left:6} }'' @ [CHR 0x0A]
     @ ''    });'' @ [CHR 0x0A, CHR 0x0A]
     @ ''    chartPass && chartPass.destroy();'' @ [CHR 0x0A]
     @ ''    chartResp && chartResp.destroy();'' @ [CHR 0x0A, CHR 0x0A]
     @ ''    if (c1) chartPass = new Chart(c1, {'' @ [CHR 0x0A]
     @ ''      type:'bar','' @ [CHR 0x0A]
     @ ''      data:{ labels, datasets:[{ label:'Pass %', data:DATA.passPct }]},'' @ [CHR 0x0A]
     @ ''      options: common('Pass % by Folder', 100)'' @ [CHR 0x0A]
     @ ''    });'' @ [CHR 0x0A]
     @ ''    if (c2) chartResp = new Chart(c2, {'' @ [CHR 0x0A]
     @ ''      type:'bar','' @ [CHR 0x0A]
     @ ''      data:{ labels, datasets:[{ label:'Average Response (ms)', data:DAT''
     @ ''A.avgMs }]},'' @ [CHR 0x0A]
     @ ''      options: common('Average Response Time (ms) by Folder')'' @ [CHR 0x0A]
     @ ''    });'' @ [CHR 0x0A]
     @ ''  }'' @ [CHR 0x0A, CHR 0x0A]
     @ ''  // Inline expand in table (card style)'' @ [CHR 0x0A]
     @ ''  window.addEventListener('DOMContentLoaded', () => {'' @ [CHR 0x0A]
     @ ''    document.querySelectorAll('#tbl tbody tr.clickable').forEach(tr=>{'' @ [CHR 0x0A]
     @ ''      tr.addEventListener('click', ()=>{'' @ [CHR 0x0A]
     @ ''        const id   = tr.getAttribute('data-row');      // e.g. "folder-a''
     @ ''vailability"'' @ [CHR 0x0A]
     @ ''        const name = tr.getAttribute('data-folder');   // raw folder key'' @ [CHR 0x0A]
     @ ''        const sub  = document.getElementById('sub-'+id);'' @ [CHR 0x0A]
     @ ''        const box  = document.getElementById('box-'+id);'' @ [CHR 0x0A, CHR 0x0A]
     @ ''        // close others'' @ [CHR 0x0A]
     @ ''        document.querySelectorAll('#tbl tbody tr.subrow').forEach(s=>{'' @ [CHR 0x0A]
     @ ''          if (s !== sub) s.style.display = 'none';'' @ [CHR 0x0A]
     @ ''        });'' @ [CHR 0x0A, CHR 0x0A]
     @ ''        const open = sub.style.display !== 'none';'' @ [CHR 0x0A]
     @ ''        if (open) { sub.style.display = 'none'; return; }'' @ [CHR 0x0A, CHR 0x0A]
     @ ''        const list = (API_SUMMARY[name] || []);'' @ [CHR 0x0A]
     @ ''        box.innerHTML = list.length'' @ [CHR 0x0A]
     @ ''          ? list.map(a =>'' @ [CHR 0x0A]
     @ ''              '<div class="api-chip"><b>'+escHtml(a.pretty)+'</b>'+'' @ [CHR 0x0A]
     @ ''              '<span class="badge pass">'+a.pass+'</span>'+'' @ [CHR 0x0A]
     @ ''              '<span class="badge fail">'+a.fail+'</span>'+'' @ [CHR 0x0A]
     @ ''              '<span class="muted">'+a.pct+'%</span></div>'' @ [CHR 0x27, CHR 0x0A]
     @ ''            ).join('' @ [CHR 0x27, CHR 0x27]
     @ '')'' @ [CHR 0x0A]
     @ ''          : '<span class="muted">No executed APIs in this folder for thi''
     @ ''s run.</span>';'' @ [CHR 0x0A, CHR 0x0A]
     @ ''        sub.style.display = 'table-row'; // required for <tr>'' @ [CHR 0x0A]
     @ ''      });'' @ [CHR 0x0A]
     @ ''    });'' @ [CHR 0x0A, CHR 0x0A]
     @ ''    buildCharts();'' @ [CHR 0x0A]
     @ ''  });'' @ [CHR 0x0A, CHR 0x0A]
     @ ''  // Modal for req/res payloads'' @ [CHR 0x0A]
     @ ''  (function(){'' @ [CHR 0x0A]
     @ ''    const modal=document.getElementById('modal');'' @ [CHR 0x0A]
     @ ''    const mPre =document.getElementById('mPre');'' @ [CHR 0x0A]
     @ ''    const mTitle=document.getElementById('mTitle');'' @ [CHR 0x0A]
     @ ''    function openModal(kind, id){'' @ [CHR 0x0A]
     @ ''      const tag=document.getElementById('payload-'+kind+'-'+id);'' @ [CHR 0x0A]
     @ ''      if(!tag) return;'' @ [CHR 0x0A]
     @ ''      try{'' @ [CHR 0x0A]
     @ ''        const rawB64 = tag.textContent.trim();'' @ [CHR 0x0A]
     @ ''        const obj = JSON.parse(atob(rawB64));'' @ [CHR 0x0A]
     @ ''        mTitle.textContent = (kind==='req'?'Request':'Response') + ' '' @ [CHR 0x95]
     @ '' ' + id;'' @ [CHR 0x0A]
     @ ''        mPre.textContent = JSON.stringify(obj, null, 2);'' @ [CHR 0x0A]
     @ ''        modal.classList.add('show');'' @ [CHR 0x0A]
     @ ''      }catch(err){'' @ [CHR 0x0A]
     @ ''        mTitle.textContent='Payload';'' @ [CHR 0x0A]
     @ ''        mPre.textContent='Unable to parse payload';'' @ [CHR 0x0A]
     @ ''        modal.classList.add('show');'' @ [CHR 0x0A]
     @ ''      }'' @ [CHR 0x0A]
     @ ''    }'' @ [CHR 0x0A]
     @ ''    function closeModal(){ modal.classList.remove('show'); mPre.textCont''
     @ ''ent='' @ [CHR 0x27, CHR 0x27]
     @ ''; }'' @ [CHR 0x0A]
     @ ''    document.addEventListener('click',e=>{'' @ [CHR 0x0A]
     @ ''      const btn=e.target.closest('[data-open]'); if(btn){ openModal(btn.''
     @ ''getAttribute('data-open'), btn.getAttribute('data-for')); }'' @ [CHR 0x0A]
     @ ''      if(e.target.closest('[data-close]')) closeModal();'' @ [CHR 0x0A]
     @ ''      if(e.target.classList.contains('backdrop')) closeModal();'' @ [CHR 0x0A]
     @ ''    });'' @ [CHR 0x0A]
     @ ''    document.addEventListener('keydown',e=>{ if(e.key==='Escape') closeM''
     @ ''odal(); });'' @ [CHR 0x0A]
     @ ''  })();'' @ [CHR 0x0A, CHR 0x0A]
     @ ''  window.addEventListener('resize', ()=>{ clearTimeout(window.__rt); win''
     @ ''dow.__rt=setTimeout(buildCharts,150); });'' @ [CHR 0x0A]
     @ ''  </script>'' @ [CHR 0x0A]
     @ ''</body>'' @ [CHR 0x0A]
     @ ''</html>''\<close>


text \<open>The constant text of the row template of the folder table.\<close>

definition row01 :: string where
  \<open>row01 =
     [CHR 0x0A]
     @ ''            <tr class="clickable" data-row="''\<close>

definition row02 :: string where
  \<open>row02 =
     ''" data-folder="''\<close>

definition row03 :: string where
  \<open>row03 =
     ''">'' @ [CHR 0x0A]
     @ ''              <td>''\<close>

definition row04 :: string where
  \<open>row04 =
     '' <span class="badge">''\<close>

definition row05 :: string where
  \<open>row05 =
     ''</span></td>'' @ [CHR 0x0A]
     @ ''              <td><span class="badge pass">''\<close>

definition row06 :: string where
  \<open>row06 =
     ''</span></td>'' @ [CHR 0x0A]
     @ ''              <td><span class="badge fail">''\<close>

definition row07 :: string where
  \<open>row07 =
     ''</span></td>'' @ [CHR 0x0A]
     @ ''              <td>''\<close>

definition row08 :: string where
  \<open>row08 =
     ''</td>'' @ [CHR 0x0A]
     @ ''              <td>''\<close>

definition row09 :: string where
  \<open>row09 =
     ''%</td>'' @ [CHR 0x0A]
     @ ''              <td>''\<close>

definition row10 :: string where
  \<open>row10 =
     ''</td>'' @ [CHR 0x0A]
     @ ''            </tr>'' @ [CHR 0x0A]
     @ ''            <tr class="subrow" id="sub-''\<close>

definition row11 :: string where
  \<open>row11 =
     ''" style="display:none">'' @ [CHR 0x0A]
     @ ''              <td colspan="6">'' @ [CHR 0x0A]
     @ ''                <div class="expand-card" id="box-''\<close>

definition row12 :: string where
  \<open>row12 =
     ''">'' @ [CHR 0x0A]
     @ ''                  <span class="muted">Loading'' @ [CHR 0x85]
     @ ''</span>'' @ [CHR 0x0A]
     @ ''                </div>'' @ [CHR 0x0A]
     @ ''              </td>'' @ [CHR 0x0A]
     @ ''            </tr>''\<close>


section \<open>The suite document (make-suite-report.js): rendering\<close>

text \<open>
  What the rendering takes from outside the test cases: the comparison of the locale,
  the base64 snapshots of request and response of a case (\<open>reqB64\<close>, \<open>resB64\<close>, from
  the raw request and response), the formatted start time, and the arguments and
  derived identity of the run.
\<close>

record renderEnv =
  localeCompare :: "string \<Rightarrow> string \<Rightarrow> int"
  payload :: "testcase \<Rightarrow> string \<times> string"
  generated :: string
  TITLE :: string
  SLA_MS :: int
  SUITE_PARENT :: string
  SUITE_MODULE :: string

text \<open>\<open>String(i)\<close> for an integer.\<close>

definition showInt :: "int \<Rightarrow> string" where
  "showInt i = (if i < 0 then ''-'' @ showNat (nat (- i)) else showNat (nat i))"

text \<open>\<open>tc.id\<close> and \<open>tc.tcId\<close>.\<close>

definition tcId :: "testcase \<Rightarrow> string" where
  "tcId tc = idfy (api tc @ ''-'' @ showNat (iteration tc))"

definition tcTag :: "testcase \<Rightarrow> string" where
  "tcTag tc = ''TC'' @ padStart3 (showNat (iteration tc))"

definition resultText :: "outcome \<Rightarrow> string" where
  "resultText r =
     (case r of NotRun \<Rightarrow> ''NOT RUN'' | Skipped \<Rightarrow> ''SKIPPED'' | Fail \<Rightarrow> ''FAIL'' | Pass \<Rightarrow> ''PASS'')"

definition folderRowHtml :: "folderRow \<Rightarrow> string" where
  "folderRowHtml r =
     (let fid = ''folder-'' @ idfy (fr_group r)
      in row01 @ fid @ row02 @ esc (fr_group r) @ row03 @ esc (fr_pretty r) @ row04
         @ showNat (length (fr_apis r)) @ row05 @ fmtNat (fr_pass r) @ row06
         @ fmtNat (fr_fail r) @ row07 @ fmtNat (fr_total r) @ row08
         @ fmtNat (fr_passPct r) @ row09 @ fmtInt (fr_avgMs r) @ row10 @ fid @ row11
         @ fid @ row12)"

text \<open>One row of the checks table; \<open>i\<close> counts from 0.\<close>

definition checkRowHtml :: "nat \<Rightarrow> check \<Rightarrow> string" where
  \<open>checkRowHtml i c =
     ''<tr class="'' @ (if ok c then ''ok'' else ''ng'') @ ''"><td>'' @ showNat (i + 1)
     @ ''</td><td>'' @ esc (name c) @ ''</td><td>'' @ (if ok c then ''PASS'' else ''FAIL'')
     @ ''</td><td>'' @ esc (if ok c then ''OK'' else message c) @ ''</td></tr>''\<close>

definition checksHtml :: "check list \<Rightarrow> string" where
  \<open>checksHtml cs =
     (if cs \<noteq> []
      then ''<table class="checks"><thead><tr><th>#</th><th>Assertion</th><th>Status</th><th>Message</th></tr></thead><tbody>''
           @ concat (map (\<lambda>(i, c). checkRowHtml i c) (zip [0 ..< length cs] cs))
           @ ''</tbody></table>''
      else ''<div class="muted">'' @ [CHR 0x97] @ '' no assertions '' @ [CHR 0x97] @ ''</div>'')\<close>

text \<open>The block of one test case inside the section of its API.\<close>

definition caseHtml :: "renderEnv \<Rightarrow> string \<Rightarrow> testcase \<Rightarrow> string" where
  \<open>caseHtml env apiName tc =
     ''<div class="block" id="'' @ tcId tc @ ''">''
     @ ''<div>''
     @ ''<span class="badge '' @ (if result tc = Pass then ''pass'' else ''fail'') @ ''">''
     @ resultText (result tc) @ ''</span> ''
     @ ''<b>'' @ tcTag tc @ ''-'' @ esc (pretty apiName) @ ''</b> ''
     @ (case statusCode tc of
          None \<Rightarrow> []
        | Some code \<Rightarrow>
            if code = 0 then []
            else [CHR 0xB7] @ '' <b>Status:</b> '' @ showInt code @ '' '')
     @ (case respMs tc of
          None \<Rightarrow> []
        | Some ms \<Rightarrow> [CHR 0xB7] @ '' <b>Resp:</b> '' @ fmtInt ms @ '' ms '')
     @ ''<button class="btn-mini" data-open="req" data-for="'' @ tcId tc @ ''">View Request</button>''
     @ '' <button class="btn-mini" data-open="res" data-for="'' @ tcId tc @ ''">View Response</button>''
     @ ''</div>''
     @ ''<script type="application/json" id="payload-req-'' @ tcId tc @ ''">''
     @ fst (payload env tc) @ ''</script>''
     @ ''<script type="application/json" id="payload-res-'' @ tcId tc @ ''">''
     @ snd (payload env tc) @ ''</script>''
     @ ''<div><b>Checks:</b> '' @ fmtNat (checksPassed tc) @ '' / '' @ fmtNat (checksTotal tc)
     @ ''</div>''
     @ checksHtml (checks tc)
     @ ''</div>''\<close>

text \<open>
  \<open>apimap\<close> is a plain object filled by \<open>(m[tc.api] = m[tc.api] || []).push(tc)\<close>. For
  an API whose name is a property of \<open>Object.prototype\<close> the value found is not an
  array and \<open>push\<close> raises.
\<close>

definition protoNames :: "string list" where
  "protoNames =
     [''constructor'', ''__defineGetter__'', ''__defineSetter__'', ''hasOwnProperty'',
      ''__lookupGetter__'', ''__lookupSetter__'', ''isPrototypeOf'', ''propertyIsEnumerable'',
      ''toString'', ''valueOf'', ''__proto__'', ''toLocaleString'']"

fun apimapFrom :: "(string \<times> testcase list) list \<Rightarrow> testcase list
    \<Rightarrow> js_error + (string \<times> testcase list) list" where
  "apimapFrom m [] = Inr m"
| "apimapFrom m (tc # tcs) =
     (case map_of m (api tc) of
        Some cs \<Rightarrow> apimapFrom (AList.update (api tc) (cs @ [tc]) m) tcs
      | None \<Rightarrow>
          if api tc \<in> set protoNames then Inl TypeError
          else apimapFrom (AList.update (api tc) [tc] m) tcs)"

text \<open>
  The order of the keys of a plain object: the keys that are array indices first, in
  ascending numeric order, then the other keys in insertion order.
\<close>

definition isArrayIndex :: "string \<Rightarrow> bool" where
  "isArrayIndex k =
     (k \<noteq> [] \<and> list_all isDigit k \<and> (k = ''0'' \<or> hd k \<noteq> CHR ''0'')
      \<and> length k \<le> 10 \<and> natOfDigits k < 4294967295)"

definition objectOrder :: "(string \<times> 'a) list \<Rightarrow> (string \<times> 'a) list" where
  "objectOrder m =
     sortBy (\<lambda>a b. int (natOfDigits (fst a)) - int (natOfDigits (fst b)))
       (filter (\<lambda>e. isArrayIndex (fst e)) m)
     @ filter (\<lambda>e. \<not> isArrayIndex (fst e)) m"

text \<open>The section of one API inside the section of its folder.\<close>

definition apiHtml :: "renderEnv \<Rightarrow> string \<Rightarrow> string \<times> testcase list \<Rightarrow> string" where
  \<open>apiHtml env grp e =
     (let apiName = fst e;
          cases = sortBy (\<lambda>a b. int (iteration a) - int (iteration b)) (snd e);
          passCnt = length (filter (\<lambda>c. result c = Pass) cases);
          failCnt = length (filter (\<lambda>c. result c = Fail) cases)
      in ''<details id="api-'' @ idfy (grp @ ''-'' @ apiName) @ ''" style="margin:8px 12px">''
         @ ''<summary><b>'' @ esc (pretty apiName) @ ''</b> '' @ [CHR 0x97] @ '' ''
         @ showNat (length cases) @ '' case(s) '' @ [CHR 0xB7] @ '' ''
         @ ''<span class="badge pass">'' @ showNat passCnt @ ''</span> ''
         @ ''<span class="badge fail">'' @ showNat failCnt @ ''</span></summary>''
         @ concat (map (caseHtml env apiName) cases)
         @ ''</details>'')\<close>

definition folderHtml :: "renderEnv \<Rightarrow> folderRow \<Rightarrow> js_error + string" where
  \<open>folderHtml env fr =
     (case apimapFrom [] (fr_apis fr) of
        Inl e \<Rightarrow> Inl e
      | Inr apimap \<Rightarrow>
          (let apiNames =
                 sortBy (\<lambda>a b. localeCompare env (pretty (fst a)) (pretty (fst b)))
                   (objectOrder apimap)
           in Inr (''<details id="folder-'' @ idfy (fr_group fr) @ ''">''
                   @ ''<summary><b>'' @ esc (pretty (fr_group fr)) @ ''</b> '' @ [CHR 0x97]
                   @ '' '' @ showNat (length apiNames) @ '' API(s)</summary>''
                   @ concat (map (apiHtml env (fr_group fr)) apiNames)
                   @ ''</details>'')))\<close>

fun concatResults :: "(js_error + string) list \<Rightarrow> js_error + string" where
  "concatResults [] = Inr []"
| "concatResults (x # xs) =
     (case x of
        Inl e \<Rightarrow> Inl e
      | Inr s \<Rightarrow> (case concatResults xs of Inl e \<Rightarrow> Inl e | Inr t \<Rightarrow> Inr (s @ t)))"

definition detailsHtml :: "renderEnv \<Rightarrow> folderRow list \<Rightarrow> js_error + string" where
  \<open>detailsHtml env rows =
     (if rows \<noteq> [] then concatResults (map (folderHtml env) rows)
      else Inr ''<div class="muted">No folders found.</div>'')\<close>

text \<open>\<open>suiteApiSet\<close>: the display names of the APIs of the considered cases.\<close>

definition suiteApiSet :: "testcase list \<Rightarrow> string list" where
  "suiteApiSet tcs = uniq (map (\<lambda>tc. pretty (orElse (Some (api tc)) ''Request'')) (considered tcs))"

text \<open>The two objects written into the script of the page.\<close>

definition jsonObject :: "(string \<times> string) list \<Rightarrow> string" where
  "jsonObject kvs = ''{'' @ joinWith '','' (map (\<lambda>(k, v). jsonQuote k @ '':'' @ v) kvs) @ ''}''"

definition jsonArray :: "string list \<Rightarrow> string" where
  "jsonArray vs = ''['' @ joinWith '','' vs @ '']''"

definition dataJson :: "folderRow list \<Rightarrow> string" where
  "dataJson rows =
     jsonObject
       [(''labels'', jsonStringArray (map (\<lambda>r. pretty (fr_group r)) rows)),
        (''passPct'', jsonArray (map (\<lambda>r. showNat (fr_passPct r)) rows)),
        (''avgMs'', jsonArray (map (\<lambda>r. showInt (fr_avgMs r)) rows))]"

text \<open>
  \<open>folderToApiMap\<close> is a Map of Maps, in insertion order;
  \<open>buildApiSummaryForFolder\<close> reads the entry of one folder.
\<close>

definition apiStep :: "(string \<times> testcase list) list \<Rightarrow> testcase \<Rightarrow> (string \<times> testcase list) list" where
  "apiStep entry tc =
     (let a = orElse (Some (api tc)) ''Request''
      in AList.update a ((case map_of entry a of None \<Rightarrow> [] | Some cs \<Rightarrow> cs) @ [tc]) entry)"

definition executedMap :: "testcase list \<Rightarrow> string \<Rightarrow> (string \<times> testcase list) list" where
  "executedMap tcs folderName =
     foldl apiStep [] (filter (\<lambda>tc. groupKey tc = folderName) (considered tcs))"

definition apiSummaryJson :: "string \<times> testcase list \<Rightarrow> string" where
  "apiSummaryJson e =
     (let pass = length (filter (\<lambda>c. result c = Pass) (snd e));
          fail = length (filter (\<lambda>c. result c = Fail) (snd e));
          tot = pass + fail;
          pct = (if tot \<noteq> 0 then roundDiv (100 * pass) tot else 0)
      in jsonObject
           [(''api'', jsonQuote (fst e)), (''pretty'', jsonQuote (pretty (fst e))),
            (''pass'', showNat pass), (''fail'', showNat fail), (''tot'', showNat tot),
            (''pct'', showNat pct)])"

definition apiSummaryAllJson :: "testcase list \<Rightarrow> folderRow list \<Rightarrow> string" where
  "apiSummaryAllJson tcs rows =
     jsonObject
       (objectOrder
          (map (\<lambda>fr. (fr_group fr, jsonArray (map apiSummaryJson (executedMap tcs (fr_group fr)))))
             rows))"

text \<open>The document: the template with its interpolations, in the order of the script.\<close>

definition suiteHtml :: "renderEnv \<Rightarrow> testcase list \<Rightarrow> js_error + string" where
  "suiteHtml env tcs =
     (let st = aggregate (SLA_MS env) tcs;
          rows = folderRows (localeCompare env) tcs
      in case detailsHtml env rows of
           Inl e \<Rightarrow> Inl e
         | Inr details \<Rightarrow>
             Inr (tpl01 @ esc (SUITE_PARENT env) @ tpl02 @ esc (SUITE_MODULE env) @ tpl03
                  @ esc (TITLE env) @ tpl04 @ css @ tpl05 @ esc (TITLE env) @ tpl06
                  @ generated env @ tpl07 @ fmtNat (passPct st) @ tpl08
                  @ fmtNat (totalCases st) @ tpl09 @ fmtNat (passedCases st) @ tpl10
                  @ fmtNat (failedCases st) @ tpl11 @ fmtNat (withinPct st) @ tpl12
                  @ fmtInt (SLA_MS env) @ tpl13 @ concat (map folderRowHtml rows) @ tpl14
                  @ details @ tpl15 @ jsonStringArray (suiteApiSet tcs) @ tpl16
                  @ dataJson rows @ tpl17 @ apiSummaryAllJson tcs rows @ tpl18))"

section \<open>Properties of the normalizer\<close>

lemma lowerChar_code: "isUpper c \<Longrightarrow> codeOf (lowerChar c) = codeOf c + 32"
proof (cases c)
  case (Char b0 b1 b2 b3 b4 b5 b6 b7)
  assume "isUpper c"
  with Char show ?thesis
    by (cases b0; cases b1; cases b2; cases b3; cases b4; cases b5; cases b6; cases b7)
       (simp_all add: lowerChar_def isUpper_def codeOf_def)
qed

lemma respMsOf_total: "\<exists>v. respMsOf ex = Inr v"
  by (cases ex) (auto simp: respMsOf_def chain_def plain_def split: option.splits)

lemma testCase_total: "\<exists>tc. testCase ex = Inr tc"
proof -
  obtain v where "respMsOf ex = Inr v" using respMsOf_total by blast
  then show ?thesis by (simp add: testCase_def Let_def)
qed

lemma testCase_None_result: "testCase None = Inr tc \<Longrightarrow> result tc = NotRun"
  by (auto simp: testCase_def Let_def chain_def respMsOf_def)

lemma testCase_Some_result:
  assumes "testCase (Some x) = Inr tc"
  shows "result tc =
     (if (\<exists>a\<in>set (assertionsOf (Some x)). skipTest (checkName a) \<or> skipTest (checkMessage a))
      then Skipped
      else if (\<exists>a\<in>set (assertionsOf (Some x)). a_error a \<noteq> None) then Fail else Pass)"
proof -
  let ?as = "assertionsOf (Some x)"
  obtain v where v: "respMsOf (Some x) = Inr v" using respMsOf_total by blast
  have "result tc =
     (if list_ex (\<lambda>c. skipTest (name c) \<or> skipTest (message c)) (map mkCheck ?as)
      then Skipped
      else if length (filter (\<lambda>a. a_error a \<noteq> None) ?as) > 0 then Fail else Pass)"
    using assms v by (auto simp: testCase_def Let_def)
  moreover have "list_ex (\<lambda>c. skipTest (name c) \<or> skipTest (message c)) (map mkCheck ?as)
      = (\<exists>a\<in>set ?as. skipTest (checkName a) \<or> skipTest (checkMessage a))"
    by (simp add: list_ex_iff mkCheck_def)
  moreover have "(length (filter (\<lambda>a. a_error a \<noteq> None) ?as) > 0)
      = (\<exists>a\<in>set ?as. a_error a \<noteq> None)"
    by (simp add: filter_empty_conv)
  ultimately show ?thesis by simp
qed

lemma testCases_total:
  "\<exists>tcs. testCases execs = Inr tcs \<and> length tcs = length execs
        \<and> (\<forall>i<length execs. testCase (execs ! i) = Inr (tcs ! i))"
proof (induction execs)
  case Nil
  then show ?case by simp
next
  case (Cons ex exs)
  then obtain tcs where t: "testCases exs = Inr tcs" "length tcs = length exs"
    "\<forall>i<length exs. testCase (exs ! i) = Inr (tcs ! i)" by blast
  obtain tc where c: "testCase ex = Inr tc" using testCase_total by blast
  have "\<forall>i<length (ex # exs). testCase ((ex # exs) ! i) = Inr ((tc # tcs) ! i)"
    using t(3) c by (auto simp: nth_Cons split: nat.splits)
  with t c show ?case by simp
qed

text \<open>
  Claim C8. An entry of the executions sequence that is missing (\<open>null\<close>) does not make
  the normalizer raise: the whole sequence is normalized, one test case per entry, and
  the test case at the position of the missing entry has outcome NotRun.
\<close>

theorem missing_execution_NotRun:
  "i < length execs \<Longrightarrow> execs ! i = None \<Longrightarrow>
   \<exists>tcs. testCases execs = Inr tcs \<and> length tcs = length execs \<and> result (tcs ! i) = NotRun"
proof -
  assume i: "i < length execs" and n: "execs ! i = None"
  obtain tcs where t: "testCases execs = Inr tcs" "length tcs = length execs"
    "\<forall>i<length execs. testCase (execs ! i) = Inr (tcs ! i)"
    using testCases_total by blast
  from t(3) i n have "testCase None = Inr (tcs ! i)" by metis
  then have "result (tcs ! i) = NotRun" by (rule testCase_None_result)
  with t show ?thesis by blast
qed

theorem missing_execution_NotRun_witness:
  "(1::nat) < length [Some \<lparr>x_item = None, x_assertions = None, x_response = None, x_cursor = None\<rparr>, None]
   \<and> [Some \<lparr>x_item = None, x_assertions = None, x_response = None, x_cursor = None\<rparr>, None] ! 1 = None
   \<and> (\<exists>tcs. testCases [Some \<lparr>x_item = None, x_assertions = None, x_response = None,
                                 x_cursor = None\<rparr>, None] = Inr tcs
          \<and> length tcs = length [Some \<lparr>x_item = None, x_assertions = None, x_response = None,
                                         x_cursor = None\<rparr>, None]
          \<and> result (tcs ! 1) = NotRun)"
  using missing_execution_NotRun
    [of 1 "[Some \<lparr>x_item = None, x_assertions = None, x_response = None, x_cursor = None\<rparr>, None]"]
  by simp

lemma testCase_Some_respMs:
  "testCase (Some x) = Inr tc \<Longrightarrow> respMs tc = chain (x_response x) r_responseTime"
  by (auto simp: testCase_def Let_def respMsOf_def chain_def plain_def split: option.splits if_splits)

lemma skipTest_OK: "\<not> skipTest ''OK''"
  by (simp add: skipTest_def toLowerCase_def)

lemmas normalizer_eval = testCase_def Let_def assertionsOf_def chain_def respMsOf_def plain_def
  mkCheck_def checkName_def checkMessage_def jsOr_def orElse_def skipTest_def toLowerCase_def
  lowerChar_def isUpper_def codeOf_def isWordChar_def isLower_def isDigit_def firstSegment_def
  trim_def isSpace_def

lemmas aggregate_eval = suiteAggregates_def aggregate_def considered_def withinSla_def roundDiv_def

text \<open>
  Claim C1, as the specification states it, gives totalCases = 2, passedCases = 1,
  failedCases = 1, passPct = 50, withinSLA = 1, withinPct = 50 for the run with three
  executions. On the script the third execution, which is present and has no assertion,
  is classified Pass and is counted: the figures of the claim are not the computed ones.
\<close>

theorem scenario_claimed_aggregates_counterexample:
  "suiteAggregates 1000
     [Some \<lparr>x_item = Some \<lparr>i_name = Some ''Orders/List''\<rparr>,
            x_assertions = Some [\<lparr>a_assertion = Some ''Status is 200'', a_error = None\<rparr>,
                                 \<lparr>a_assertion = Some ''Body has id'', a_error = None\<rparr>],
            x_response = Some \<lparr>r_code = Some 200, r_responseTime = Some 400\<rparr>,
            x_cursor = Some \<lparr>c_iteration = Some 0\<rparr>\<rparr>,
      Some \<lparr>x_item = Some \<lparr>i_name = Some ''Orders/Create''\<rparr>,
            x_assertions = Some [\<lparr>a_assertion = Some ''Status is 201'',
                                  a_error = Some \<lparr>e_test = Some ''Status is 201'',
                                    e_name = Some ''AssertionError'',
                                    e_message = Some ''expected 500 to equal 201'',
                                    e_stack = None\<rparr>\<rparr>],
            x_response = Some \<lparr>r_code = Some 500, r_responseTime = Some 1500\<rparr>,
            x_cursor = Some \<lparr>c_iteration = Some 0\<rparr>\<rparr>,
      Some \<lparr>x_item = Some \<lparr>i_name = Some ''Orders/Ping''\<rparr>,
            x_assertions = Some [],
            x_response = None,
            x_cursor = Some \<lparr>c_iteration = Some 0\<rparr>\<rparr>]
   \<noteq> Inr \<lparr>totalCases = 2, passedCases = 1, failedCases = 1, passPct = 50,
           withinSLA = 1, withinPct = 50\<rparr>"
  by (simp add: normalizer_eval aggregate_eval)

text \<open>
  Claim C1, amended. For the run with three present executions: (a) two assertions
  without error and response time 400 ms, (b) one assertion with an error and response
  time 1500 ms, (c) no assertion and no response object, none of the assertions carrying
  the skip marker, and SLA threshold 1000 ms, the aggregates are totalCases = 3,
  passedCases = 2, failedCases = 1, passPct = 67, withinSLA = 1, withinPct = 33.
\<close>

theorem scenario_three_executions:
  assumes a: "assertionsOf (Some ea) = [a1, a2]" "a_error a1 = None" "a_error a2 = None"
      and ar: "x_response ea = Some ra" "r_responseTime ra = Some 400"
      and b: "assertionsOf (Some eb) = [b1]" "a_error b1 = Some er"
      and br: "x_response eb = Some rb" "r_responseTime rb = Some 1500"
      and c: "assertionsOf (Some ec) = []" "x_response ec = None"
      and ns: "\<not> skipTest (checkName a1)" "\<not> skipTest (checkName a2)"
              "\<not> skipTest (checkName b1)" "\<not> skipTest (checkMessage b1)"
  shows "suiteAggregates 1000 [Some ea, Some eb, Some ec]
         = Inr \<lparr>totalCases = 3, passedCases = 2, failedCases = 1, passPct = 67,
                 withinSLA = 1, withinPct = 33\<rparr>"
proof -
  obtain ta where ta: "testCase (Some ea) = Inr ta" using testCase_total by blast
  obtain tb where tb: "testCase (Some eb) = Inr tb" using testCase_total by blast
  obtain tc where tc: "testCase (Some ec) = Inr tc" using testCase_total by blast
  have ma: "checkMessage a1 = ''OK''" "checkMessage a2 = ''OK''"
    using a by (simp_all add: checkMessage_def)
  have ra: "result ta = Pass"
    using testCase_Some_result [OF ta] a ns ma skipTest_OK by simp
  have rb: "result tb = Fail"
    using testCase_Some_result [OF tb] b ns by simp
  have rc: "result tc = Pass"
    using testCase_Some_result [OF tc] c by simp
  have ms: "respMs ta = Some 400" "respMs tb = Some 1500" "respMs tc = None"
    using testCase_Some_respMs [OF ta] testCase_Some_respMs [OF tb] testCase_Some_respMs [OF tc]
      ar br c by (simp_all add: chain_def)
  have "testCases [Some ea, Some eb, Some ec] = Inr [ta, tb, tc]"
    using ta tb tc by simp
  then show ?thesis
    using ra rb rc ms by (simp add: aggregate_eval)
qed

theorem scenario_three_executions_witness:
  "suiteAggregates 1000
     [Some \<lparr>x_item = Some \<lparr>i_name = Some ''Orders/List''\<rparr>,
            x_assertions = Some [\<lparr>a_assertion = Some ''Status is 200'', a_error = None\<rparr>,
                                 \<lparr>a_assertion = Some ''Body has id'', a_error = None\<rparr>],
            x_response = Some \<lparr>r_code = Some 200, r_responseTime = Some 400\<rparr>,
            x_cursor = None\<rparr>,
      Some \<lparr>x_item = Some \<lparr>i_name = Some ''Orders/Create''\<rparr>,
            x_assertions = Some [\<lparr>a_assertion = Some ''Status is 201'',
                                  a_error = Some \<lparr>e_test = None, e_name = None,
                                    e_message = Some ''expected 500 to equal 201'',
                                    e_stack = None\<rparr>\<rparr>],
            x_response = Some \<lparr>r_code = Some 500, r_responseTime = Some 1500\<rparr>,
            x_cursor = None\<rparr>,
      Some \<lparr>x_item = Some \<lparr>i_name = Some ''Orders/Ping''\<rparr>,
            x_assertions = None, x_response = None, x_cursor = None\<rparr>]
   = Inr \<lparr>totalCases = 3, passedCases = 2, failedCases = 1, passPct = 67,
           withinSLA = 1, withinPct = 33\<rparr>"
  by (rule scenario_three_executions
        [where ?a1.0 = "\<lparr>a_assertion = Some ''Status is 200'', a_error = None\<rparr>"
           and ?a2.0 = "\<lparr>a_assertion = Some ''Body has id'', a_error = None\<rparr>"
           and ?b1.0 = "\<lparr>a_assertion = Some ''Status is 201'',
                          a_error = Some \<lparr>e_test = None, e_name = None,
                            e_message = Some ''expected 500 to equal 201'', e_stack = None\<rparr>\<rparr>"
           and ra = "\<lparr>r_code = Some 200, r_responseTime = Some 400\<rparr>"
           and rb = "\<lparr>r_code = Some 500, r_responseTime = Some 1500\<rparr>"
           and er = "\<lparr>e_test = None, e_name = None,
                       e_message = Some ''expected 500 to equal 201'', e_stack = None\<rparr>"])
     (simp_all add: normalizer_eval)

text \<open>
  Claim C2, as the specification states it, takes every assertion whose name or message
  contains the substring \<open>skip\<close> for a skip marker. The script tests for the word
  \<open>skip\<close> between word boundaries: an assertion named \<open>Skipped records are omitted\<close>
  contains the substring, and its execution is classified Pass.
\<close>

theorem skip_substring_counterexample:
  "specSkipMarker (checkName \<lparr>a_assertion = Some ''Skipped records are omitted'', a_error = None\<rparr>)
   \<and> testCase (Some \<lparr>x_item = Some \<lparr>i_name = Some ''Orders/List''\<rparr>,
          x_assertions = Some [\<lparr>a_assertion = Some ''Skipped records are omitted'', a_error = None\<rparr>],
          x_response = Some \<lparr>r_code = Some 200, r_responseTime = Some 120\<rparr>,
          x_cursor = None\<rparr>)
     = Inr \<lparr>group = ''Orders'', api = ''Orders/List'', iteration = 1, result = Pass,
            checksPassed = 1, checksFailed = 0, checksTotal = 1,
            statusCode = Some 200, respMs = Some 120,
            checks = [\<lparr>name = ''Skipped records are omitted'', ok = True, message = ''OK''\<rparr>]\<rparr>"
  by (simp add: normalizer_eval specSkipMarker_def)

text \<open>
  Claim C2, amended. For every present execution entry whose assertion list contains at
  least one assertion whose name or failure message contains the word \<open>skip\<close> (letter
  case ignored, not directly preceded or followed by a letter, a digit or an underscore),
  the normalizer assigns outcome Skipped, whether or not some assertion of the entry
  recorded an error.
\<close>

theorem skip_marker_precedence:
  assumes "a \<in> set (assertionsOf (Some ex))"
      and "skipTest (checkName a) \<or> skipTest (checkMessage a)"
  shows "\<exists>tc. testCase (Some ex) = Inr tc \<and> result tc = Skipped"
proof -
  obtain tc where tc: "testCase (Some ex) = Inr tc" using testCase_total by blast
  have "result tc = Skipped"
    using testCase_Some_result [OF tc] assms by auto
  with tc show ?thesis by blast
qed

theorem skip_marker_precedence_witness:
  "\<lparr>a_assertion = Some ''SKIP: feature flag off'', a_error = None\<rparr>
     \<in> set (assertionsOf (Some \<lparr>x_item = None,
          x_assertions = Some [\<lparr>a_assertion = Some ''Status is 200'',
                                 a_error = Some \<lparr>e_test = None, e_name = None,
                                   e_message = Some ''expected 404 to equal 200'',
                                   e_stack = None\<rparr>\<rparr>,
                               \<lparr>a_assertion = Some ''SKIP: feature flag off'', a_error = None\<rparr>],
          x_response = None, x_cursor = None\<rparr>))
   \<and> skipTest (checkName \<lparr>a_assertion = Some ''SKIP: feature flag off'', a_error = None\<rparr>)
   \<and> (\<exists>tc. testCase (Some \<lparr>x_item = None,
          x_assertions = Some [\<lparr>a_assertion = Some ''Status is 200'',
                                 a_error = Some \<lparr>e_test = None, e_name = None,
                                   e_message = Some ''expected 404 to equal 200'',
                                   e_stack = None\<rparr>\<rparr>,
                               \<lparr>a_assertion = Some ''SKIP: feature flag off'', a_error = None\<rparr>],
          x_response = None, x_cursor = None\<rparr>) = Inr tc
        \<and> result tc = Skipped \<and> checksFailed tc = 1)"
proof -
  let ?a = "\<lparr>a_assertion = Some ''SKIP: feature flag off'', a_error = None\<rparr>"
  let ?ex = "\<lparr>x_item = None,
          x_assertions = Some [\<lparr>a_assertion = Some ''Status is 200'',
                                 a_error = Some \<lparr>e_test = None, e_name = None,
                                   e_message = Some ''expected 404 to equal 200'',
                                   e_stack = None\<rparr>\<rparr>, ?a],
          x_response = None, x_cursor = None\<rparr>"
  have m: "?a \<in> set (assertionsOf (Some ?ex))"
    by (simp add: assertionsOf_def chain_def)
  have k: "skipTest (checkName ?a)"
    by (simp add: normalizer_eval)
  obtain tc where tc: "testCase (Some ?ex) = Inr tc" "result tc = Skipped"
    using skip_marker_precedence [OF m] k by blast
  have "checksFailed tc = 1"
    using tc(1) by (auto simp: testCase_def Let_def assertionsOf_def chain_def respMsOf_def)
  with m k tc show ?thesis by blast
qed

section \<open>Properties of the folder summaries\<close>

lemma folderStep_other: "groupKey x \<noteq> g \<Longrightarrow> map_of (folderStep m x) g = map_of m g"
  by (simp add: folderStep_def Let_def update_conv')

lemma accOf_other: "groupKey x \<noteq> g \<Longrightarrow> accOf (xs @ [x]) g = accOf xs g"
  by (simp add: accOf_def List.map_filter_def)

lemma folderStep_new:
  "map_of m (groupKey x) = None \<Longrightarrow> groupKey x \<notin> groupKey ` set xs \<Longrightarrow>
   map_of (folderStep m x) (groupKey x) = Some (accOf (xs @ [x]) (groupKey x))"
proof -
  assume m: "map_of m (groupKey x) = None" and n: "groupKey x \<notin> groupKey ` set xs"
  from n have ne: "\<forall>tc\<in>set xs. groupKey tc \<noteq> groupKey x"
    by (metis imageI)
  then have e: "filter (\<lambda>tc. groupKey tc = groupKey x) xs = []"
    and e1: "filter (\<lambda>tc. groupKey tc = groupKey x \<and> result tc = Pass) xs = []"
    and e2: "filter (\<lambda>tc. groupKey tc = groupKey x \<and> result tc \<noteq> Pass) xs = []"
    by (simp_all add: filter_empty_conv)
  show ?thesis
    using m e e1 e2
    by (simp add: folderStep_def Let_def update_conv' accOf_def List.map_filter_def
             split: option.splits)
qed

lemma folderStep_old:
  "map_of m (groupKey x) = Some (accOf xs (groupKey x)) \<Longrightarrow>
   map_of (folderStep m x) (groupKey x) = Some (accOf (xs @ [x]) (groupKey x))"
  by (simp add: folderStep_def Let_def update_conv' accOf_def List.map_filter_def
           split: option.splits)

lemma foldl_folderStep:
  "map_of (foldl folderStep [] xs) g =
     (if g \<in> groupKey ` set xs then Some (accOf xs g) else None)"
proof (induction xs arbitrary: g rule: rev_induct)
  case Nil
  then show ?case by simp
next
  case (snoc x xs)
  let ?m = "foldl folderStep [] xs"
  have f: "foldl folderStep [] (xs @ [x]) = folderStep ?m x" by simp
  show ?case
  proof (cases "groupKey x = g")
    case True
    show ?thesis
    proof (cases "g \<in> groupKey ` set xs")
      case True
      with snoc [of g] \<open>groupKey x = g\<close> have "map_of ?m (groupKey x) = Some (accOf xs (groupKey x))"
        by simp
      from folderStep_old [OF this] \<open>groupKey x = g\<close> show ?thesis
        unfolding f by simp
    next
      case False
      with snoc [of g] \<open>groupKey x = g\<close> have "map_of ?m (groupKey x) = None"
        and "groupKey x \<notin> groupKey ` set xs" by simp_all
      from folderStep_new [OF this] \<open>groupKey x = g\<close> show ?thesis
        unfolding f by simp
    qed
  next
    case False
    then show ?thesis
      unfolding f using snoc [of g] by (simp add: folderStep_other accOf_other)
  qed
qed

lemma fst_folderStep: "fst ` set (folderStep m x) = insert (groupKey x) (fst ` set m)"
  by (simp add: folderStep_def Let_def dom_update)

lemma distinct_folderStep: "distinct (map fst m) \<Longrightarrow> distinct (map fst (folderStep m x))"
  by (simp add: folderStep_def Let_def distinct_update)

lemma distinct_foldl_folderStep: "distinct (map fst (foldl folderStep [] xs))"
proof (induction xs rule: rev_induct)
  case Nil
  then show ?case by simp
next
  case (snoc x xs)
  have "foldl folderStep [] (xs @ [x]) = folderStep (foldl folderStep [] xs) x" by simp
  with distinct_folderStep [OF snoc] show ?case by simp
qed

lemma set_sortBy: "set (sortBy cmp xs) = set xs"
proof -
  have ins: "\<And>x ys. set (insertBy cmp x ys) = insert x (set ys)"
  proof -
    fix x ys show "set (insertBy cmp x ys) = insert x (set ys)"
      by (induction ys) auto
  qed
  show ?thesis by (induction xs) (simp_all add: sortBy_def ins)
qed

lemma folderRows_mem:
  assumes "r \<in> set (folderRows lc tcs)"
  shows "\<exists>g. g \<in> groupKey ` set (considered tcs) \<and> r = mkFolderRow (accOf (considered tcs) g)"
proof -
  from assms obtain g a where ga: "(g, a) \<in> set (byFolder tcs)" "r = mkFolderRow a"
    by (auto simp: folderRows_def set_sortBy)
  have "map_of (byFolder tcs) g = Some a"
    using ga(1) distinct_foldl_folderStep by (simp add: byFolder_def)
  then have "g \<in> groupKey ` set (considered tcs) \<and> a = accOf (considered tcs) g"
    by (simp add: byFolder_def foldl_folderStep split: if_splits)
  with ga show ?thesis by blast
qed

lemma roundDiv_round: "0 < d \<Longrightarrow> int (roundDiv n d) = round (real n / real d)"
proof -
  assume d: "0 < d"
  have "real n / real d + 1 / 2 = real (2 * n + d) / real (2 * d)"
    using d by (simp add: field_simps)
  then have "round (real n / real d) = \<lfloor>real (2 * n + d) / real (2 * d)\<rfloor>"
    by (simp add: round_def)
  also have "\<dots> = int ((2 * n + d) div (2 * d))"
    by (rule floor_divide_of_nat_eq)
  finally show ?thesis by (simp add: roundDiv_def)
qed

lemma roundDiv_le: "p \<le> t \<Longrightarrow> 0 < t \<Longrightarrow> roundDiv (100 * p) t \<le> 100"
proof -
  assume "p \<le> t" "0 < t"
  then have "2 * (100 * p) + t < 101 * (2 * t)" by simp
  then have "(2 * (100 * p) + t) div (2 * t) < 101"
    using \<open>0 < t\<close> by (simp add: div_less_iff_less_mult)
  then show ?thesis by (simp add: roundDiv_def)
qed

lemma filter_considered_Pass:
  "filter (\<lambda>tc. P tc \<and> result tc = Pass) (considered tcs) = filter (\<lambda>tc. P tc \<and> result tc = Pass) tcs"
  by (induction tcs) (auto simp: considered_def)

lemma filter_considered_not_Pass:
  "filter (\<lambda>tc. P tc \<and> result tc \<noteq> Pass) (considered tcs) = filter (\<lambda>tc. P tc \<and> result tc = Fail) tcs"
  by (induction tcs) (auto simp: considered_def)

lemma length_filter_split:
  "length (filter P xs) = length (filter (\<lambda>x. P x \<and> Q x) xs) + length (filter (\<lambda>x. P x \<and> \<not> Q x) xs)"
  by (induction xs) auto

text \<open>
  Claim C9. Every folder summary is computed over exactly the cases of its group with
  outcome Pass or Fail: its pass count and fail count are the numbers of those cases,
  its total is their sum, and its pass rate lies between 0 and 100 and is
  \<open>round(100 * pass / total)\<close>, 0 when the total is 0.
\<close>

theorem folder_summary_invariants:
  assumes "r \<in> set (folderRows cmp tcs)"
  shows "fr_pass r = length (filter (\<lambda>tc. groupKey tc = fr_group r \<and> result tc = Pass) tcs)
       \<and> fr_fail r = length (filter (\<lambda>tc. groupKey tc = fr_group r \<and> result tc = Fail) tcs)
       \<and> fr_total r = fr_pass r + fr_fail r
       \<and> fr_passPct r \<le> 100
       \<and> int (fr_passPct r) =
           (if fr_total r = 0 then 0 else round (100 * real (fr_pass r) / real (fr_total r)))"
proof -
  obtain g where r: "r = mkFolderRow (accOf (considered tcs) g)"
    using folderRows_mem [OF assms] by blast
  have g: "fr_group r = g" by (simp add: r mkFolderRow_def accOf_def)
  have p: "fr_pass r = length (filter (\<lambda>tc. groupKey tc = fr_group r \<and> result tc = Pass) tcs)"
    unfolding g by (simp add: r mkFolderRow_def accOf_def filter_considered_Pass)
  have f: "fr_fail r = length (filter (\<lambda>tc. groupKey tc = fr_group r \<and> result tc = Fail) tcs)"
    unfolding g by (simp add: r mkFolderRow_def accOf_def filter_considered_not_Pass)
  have t: "fr_total r = fr_pass r + fr_fail r"
    using length_filter_split [of "\<lambda>tc. groupKey tc = g" "considered tcs" "\<lambda>tc. result tc = Pass"]
    by (simp add: r mkFolderRow_def accOf_def)
  have pct: "fr_passPct r = (if fr_total r \<noteq> 0 then roundDiv (100 * fr_pass r) (fr_total r) else 0)"
    by (simp add: r mkFolderRow_def)
  have le: "fr_passPct r \<le> 100"
    using roundDiv_le [of "fr_pass r" "fr_total r"] t by (simp add: pct)
  have rd: "int (fr_passPct r) =
           (if fr_total r = 0 then 0 else round (100 * real (fr_pass r) / real (fr_total r)))"
    using roundDiv_round [of "fr_total r" "100 * fr_pass r"] by (simp add: pct)
  from p f t le rd show ?thesis by blast
qed

lemmas folder_eval = folderRows_def sortBy_def byFolder_def considered_def folderStep_def
  groupKey_def Let_def mkFolderRow_def pretty_def stripScPrefix_def trim_def isSpace_def
  isDigit_def codeOf_def roundDiv_def avg_def

theorem folder_summary_invariants_witness:
  "(let tcs =
      [\<lparr>group = ''Orders'', api = ''Orders/List'', iteration = 1, result = Pass,
         checksPassed = 1, checksFailed = 0, checksTotal = 1,
         statusCode = Some 200, respMs = Some 120,
         checks = [\<lparr>name = ''Status is 200'', ok = True, message = ''OK''\<rparr>]\<rparr>,
       \<lparr>group = ''Orders'', api = ''Orders/Create'', iteration = 1, result = Fail,
         checksPassed = 0, checksFailed = 1, checksTotal = 1,
         statusCode = Some 500, respMs = Some 301,
         checks = [\<lparr>name = ''Status is 201'', ok = False,
                    message = ''expected 500 to equal 201''\<rparr>]\<rparr>,
       \<lparr>group = ''Orders'', api = ''Orders/Get'', iteration = 1, result = Pass,
         checksPassed = 0, checksFailed = 0, checksTotal = 0,
         statusCode = None, respMs = None, checks = []\<rparr>,
       \<lparr>group = ''Users'', api = ''Users/Get'', iteration = 1, result = Skipped,
         checksPassed = 0, checksFailed = 0, checksTotal = 0,
         statusCode = None, respMs = None, checks = []\<rparr>];
        r = hd (folderRows (\<lambda>a b. 0) tcs)
    in r \<in> set (folderRows (\<lambda>a b. 0) tcs)
     \<and> fr_group r = ''Orders'' \<and> fr_pass r = 2 \<and> fr_fail r = 1 \<and> fr_total r = 3
     \<and> fr_passPct r = 67 \<and> fr_passPct r \<le> 100
     \<and> int (fr_passPct r) = round (100 * real (fr_pass r) / real (fr_total r)))"
proof -
  let ?tcs = "[\<lparr>group = ''Orders'', api = ''Orders/List'', iteration = 1, result = Pass,
         checksPassed = 1, checksFailed = 0, checksTotal = 1,
         statusCode = Some 200, respMs = Some 120,
         checks = [\<lparr>name = ''Status is 200'', ok = True, message = ''OK''\<rparr>]\<rparr>,
       \<lparr>group = ''Orders'', api = ''Orders/Create'', iteration = 1, result = Fail,
         checksPassed = 0, checksFailed = 1, checksTotal = 1,
         statusCode = Some 500, respMs = Some 301,
         checks = [\<lparr>name = ''Status is 201'', ok = False,
                    message = ''expected 500 to equal 201''\<rparr>]\<rparr>,
       \<lparr>group = ''Orders'', api = ''Orders/Get'', iteration = 1, result = Pass,
         checksPassed = 0, checksFailed = 0, checksTotal = 0,
         statusCode = None, respMs = None, checks = []\<rparr>,
       \<lparr>group = ''Users'', api = ''Users/Get'', iteration = 1, result = Skipped,
         checksPassed = 0, checksFailed = 0, checksTotal = 0,
         statusCode = None, respMs = None, checks = []\<rparr>]"
  let ?r = "hd (folderRows (\<lambda>a b. 0) ?tcs)"
  have m: "?r \<in> set (folderRows (\<lambda>a b. 0) ?tcs)"
    by (simp add: folder_eval)
  have v: "fr_group ?r = ''Orders''" "fr_pass ?r = 2" "fr_fail ?r = 1" "fr_total ?r = 3"
    "fr_passPct ?r = 67"
    by (simp_all add: folder_eval)
  have nz: "fr_total ?r \<noteq> 0"
    using v(4) by simp
  from folder_summary_invariants [OF m]
  have le: "fr_passPct ?r \<le> 100"
    and rd: "int (fr_passPct ?r) =
      (if fr_total ?r = 0 then 0 else round (100 * real (fr_pass ?r) / real (fr_total ?r)))"
    by blast+
  from rd nz have "int (fr_passPct ?r) = round (100 * real (fr_pass ?r) / real (fr_total ?r))"
    by (simp only: if_False)
  with m v le show ?thesis unfolding Let_def by (intro conjI)
qed

section \<open>Properties of the combined aggregation\<close>

lemmas agg_eval = keyOf_def aggStep_def keyMapOf_def aggregateApiStatsFromRows_def setAdd_def
  uniqueStep_def grandUniqueSetOf_def allRowsOf_def grandApiDisp_def Let_def trim_def isSpace_def
  codeOf_def

text \<open>
  Claim C5, as the specification states it, holds for any two suite documents of
  grouping \<open>Billing\<close> that contain \<open>Get Invoice\<close>. The aggregate is keyed by grouping,
  module and API: when the two documents belong to different modules their rows are not
  summed, the first one counts as passed, and with one unique API the rollup shows one
  passed and no failed API.
\<close>

theorem billing_two_modules_counterexample:
  "keyMapOf (allRowsOf
      [\<lparr>d_parent = ''Billing'',
        d_rows = [\<lparr>r_parent = ''Billing'', r_module = ''Invoices'', r_api = ''Get Invoice'',
             r_pass = 5, r_fail = 0, r_total = 5, r_passPct = 100, r_avg = Some 120\<rparr>],
        d_apiList = [''Get Invoice'']\<rparr>,
       \<lparr>d_parent = ''Billing'',
        d_rows = [\<lparr>r_parent = ''Billing'', r_module = ''Payments'', r_api = ''Get Invoice'',
             r_pass = 3, r_fail = 2, r_total = 5, r_passPct = 60, r_avg = Some 250\<rparr>],
        d_apiList = [''Get Invoice'']\<rparr>])
     = [(''Billing|Invoices|Get Invoice'', \<lparr>passSum = 5, failSum = 0, totalSum = 5\<rparr>),
        (''Billing|Payments|Get Invoice'', \<lparr>passSum = 3, failSum = 2, totalSum = 5\<rparr>)]
   \<and> grandApiDisp
      [\<lparr>d_parent = ''Billing'',
        d_rows = [\<lparr>r_parent = ''Billing'', r_module = ''Invoices'', r_api = ''Get Invoice'',
             r_pass = 5, r_fail = 0, r_total = 5, r_passPct = 100, r_avg = Some 120\<rparr>],
        d_apiList = [''Get Invoice'']\<rparr>,
       \<lparr>d_parent = ''Billing'',
        d_rows = [\<lparr>r_parent = ''Billing'', r_module = ''Payments'', r_api = ''Get Invoice'',
             r_pass = 3, r_fail = 2, r_total = 5, r_passPct = 60, r_avg = Some 250\<rparr>],
        d_apiList = [''Get Invoice'']\<rparr>]
     = \<lparr>unique = 1, passed = 1, failed = 0\<rparr>"
  by (simp add: agg_eval)

text \<open>
  Claim C5, amended. When the aggregator combines two suite documents of grouping
  \<open>Billing\<close> and of the same module that both contain \<open>Get Invoice\<close>, one with
  pass = 5, fail = 0 and the other with pass = 3, fail = 2, the aggregate of that key has
  summed pass 8 and summed fail 2, and the unique-API rollup counts the API as failed
  (passed 0, failed 1), since an aggregate counts as passed only with a summed total
  above 0 and a summed fail count of 0.
\<close>

theorem billing_same_module_failed:
  "keyMapOf (allRowsOf
      [\<lparr>d_parent = ''Billing'',
        d_rows = [\<lparr>r_parent = ''Billing'', r_module = m, r_api = ''Get Invoice'',
             r_pass = 5, r_fail = 0, r_total = 5, r_passPct = p1, r_avg = a1\<rparr>],
        d_apiList = [''Get Invoice'']\<rparr>,
       \<lparr>d_parent = ''Billing'',
        d_rows = [\<lparr>r_parent = ''Billing'', r_module = m, r_api = ''Get Invoice'',
             r_pass = 3, r_fail = 2, r_total = 5, r_passPct = p2, r_avg = a2\<rparr>],
        d_apiList = [''Get Invoice'']\<rparr>])
     = [(''Billing|'' @ m @ ''|Get Invoice'', \<lparr>passSum = 8, failSum = 2, totalSum = 10\<rparr>)]
   \<and> grandApiDisp
      [\<lparr>d_parent = ''Billing'',
        d_rows = [\<lparr>r_parent = ''Billing'', r_module = m, r_api = ''Get Invoice'',
             r_pass = 5, r_fail = 0, r_total = 5, r_passPct = p1, r_avg = a1\<rparr>],
        d_apiList = [''Get Invoice'']\<rparr>,
       \<lparr>d_parent = ''Billing'',
        d_rows = [\<lparr>r_parent = ''Billing'', r_module = m, r_api = ''Get Invoice'',
             r_pass = 3, r_fail = 2, r_total = 5, r_passPct = p2, r_avg = a2\<rparr>],
        d_apiList = [''Get Invoice'']\<rparr>]
     = \<lparr>unique = 1, passed = 0, failed = 1\<rparr>"
  by (simp add: agg_eval)

section \<open>Properties of the suite identity\<close>

lemma findIndex_Some:
  "findIndex P xs = Some i \<Longrightarrow> i < length xs \<and> P (xs ! i)"
  by (induction xs arbitrary: i) (auto split: if_splits)

lemma anchor_only_last:
  assumes "filter P (butlast segs) = []" "findIndex P segs = Some i"
  shows "elemAt segs (i + 1) = None" "elemAt segs (i + 2) = None"
proof -
  from findIndex_Some [OF assms(2)] have i: "i < length segs" "P (segs ! i)" by simp_all
  have "\<not> i < length segs - 1"
  proof
    assume l: "i < length segs - 1"
    then have "butlast segs ! i = segs ! i" by (simp add: nth_butlast)
    moreover from l have "butlast segs ! i \<in> set (butlast segs)" by simp
    ultimately show False using assms(1) i(2) by (auto simp: filter_empty_conv)
  qed
  then show "elemAt segs (i + 1) = None" "elemAt segs (i + 2) = None"
    by (simp_all add: elemAt_def)
qed

lemmas identity_eval = deriveParentFromPath_def deriveModuleFromPath_def anchorTest_def
  isSep_def elemAt_def orElse_def lastDashSegment_def trim_def isSpace_def codeOf_def
  toLowerCase_def lowerChar_def isUpper_def Let_def

text \<open>
  Claim C10, as stated, makes the module key the last hyphen-separated segment of the
  collection name. The script trims that segment: for the collection
  \<open>Digital API - Billing\<close> and an output path without the anchor directory the module
  key is \<open>Billing\<close>, while the last segment is \<open>Billing\<close> preceded by a space.
\<close>

theorem module_fallback_counterexample:
  "filter anchorTest (butlast (splitSeps (id ''/home/ci/reports/orders.html''))) = []
   \<and> deriveModuleFromPath id (Some ''Digital API - Billing'') ''/home/ci/reports/orders.html''
       = ''Billing''
   \<and> lastDashSegment ''Digital API - Billing'' = '' Billing''
   \<and> deriveModuleFromPath id (Some ''Digital API - Billing'') ''/home/ci/reports/orders.html''
       \<noteq> lastDashSegment ''Digital API - Billing''"
  by (simp add: identity_eval)

text \<open>
  Claim C10, amended. For every output file path (as resolved) none of whose directory
  segments matches the anchor name \<open>newmancollectionlist\<close>, letter case ignored, the
  grouping key is \<open>Misc\<close>, and the module key is the last hyphen-separated segment of
  the collection name with surrounding white space trimmed, or \<open>Module\<close> when the name
  is absent or that trimmed segment is empty.
\<close>

theorem identity_defaults:
  assumes "filter anchorTest (butlast (splitSeps (resolve p))) = []"
  shows "deriveParentFromPath resolve p = ''Misc''
       \<and> deriveModuleFromPath resolve collName p =
           (case collName of
              None \<Rightarrow> ''Module''
            | Some n \<Rightarrow> if trim (lastDashSegment n) = [] then ''Module''
                       else trim (lastDashSegment n))"
proof (cases "findIndex anchorTest (splitSeps (resolve p))")
  case None
  then show ?thesis
    by (simp add: deriveParentFromPath_def deriveModuleFromPath_def orElse_def split: option.splits)
next
  case (Some i)
  from anchor_only_last [OF assms Some] Some show ?thesis
    by (simp add: deriveParentFromPath_def deriveModuleFromPath_def orElse_def split: option.splits)
qed

theorem identity_defaults_witness:
  "filter anchorTest (butlast (splitSeps (id ''/home/ci/reports/NewmanCollectionList.html''))) = []
   \<and> deriveParentFromPath id ''/home/ci/reports/NewmanCollectionList.html'' = ''Misc''
   \<and> deriveModuleFromPath id (Some ''Digital API - Billing'')
         ''/home/ci/reports/NewmanCollectionList.html'' = ''Billing''
   \<and> deriveModuleFromPath id None ''/home/ci/reports/NewmanCollectionList.html'' = ''Module''
   \<and> deriveModuleFromPath id (Some ''Billing-'') ''/home/ci/reports/NewmanCollectionList.html''
       = ''Module''"
proof -
  let ?p = "''/home/ci/reports/NewmanCollectionList.html''"
  have h: "filter anchorTest (butlast (splitSeps (id ?p))) = []"
    by (simp add: identity_eval)
  have t1: "trim (lastDashSegment ''Digital API - Billing'') = ''Billing''"
    by (simp add: lastDashSegment_def trim_def isSpace_def codeOf_def)
  have t2: "trim (lastDashSegment ''Billing-'') = []"
    by (simp add: lastDashSegment_def trim_def isSpace_def codeOf_def)
  have r1: "deriveParentFromPath id ?p = ''Misc''"
    using identity_defaults [of id ?p None, OF h] by (rule conjunct1)
  have r2: "deriveModuleFromPath id (Some ''Digital API - Billing'') ?p = ''Billing''"
    using identity_defaults [of id ?p "Some ''Digital API - Billing''", OF h]
    by (simp only: option.case t1) simp
  have r3: "deriveModuleFromPath id None ?p = ''Module''"
    using identity_defaults [of id ?p None, OF h] by (simp only: option.case)
  have r4: "deriveModuleFromPath id (Some ''Billing-'') ?p = ''Module''"
    using identity_defaults [of id ?p "Some ''Billing-''", OF h]
    by (simp only: option.case t2) simp
  from h r1 r2 r3 r4 show ?thesis by (intro conjI)
qed

end
